theory Spec2Isabelle
  imports Main "HOL-Library.Word" "HOL-Library.Sublist"
begin

section \<open>Promises, errors and JavaScript objects\<close>

text \<open>
  A rejected promise carries an error; a thrown exception inside a \<open>then\<close> callback rejects
  the promise of that \<open>then\<close> in the same way.
\<close>

datatype error = Error string

datatype 'a outcome = Resolved 'a | Rejected error

text \<open>
  A promise is run against a state \<open>'s\<close> (the store, the persistent cache, the trace of
  collaborator calls) and settles with an outcome. \<open>then_p\<close> is \<open>.then(f)\<close>: the callback
  runs only after a resolution. \<open>catch_p\<close> is \<open>.catch(h)\<close>: the handler runs only after a
  rejection. \<open>floating\<close> is a promise that is started and whose result nobody waits for or
  inspects (\<open>dispatch(setTokens(...))\<close> as a statement): it is run where it is started
  and its outcome is dropped.
\<close>

type_synonym ('s, 'a) promise = "'s \<Rightarrow> 'a outcome \<times> 's"

definition resolve :: "'a \<Rightarrow> ('s, 'a) promise" where
  "resolve v = (\<lambda>s. (Resolved v, s))"

definition then_p :: "('s, 'a) promise \<Rightarrow> ('a \<Rightarrow> ('s, 'b) promise) \<Rightarrow> ('s, 'b) promise" where
  "then_p p f = (\<lambda>s. case p s of
      (Resolved v, s') \<Rightarrow> f v s'
    | (Rejected e, s') \<Rightarrow> (Rejected e, s'))"

definition catch_p :: "('s, 'a) promise \<Rightarrow> (error \<Rightarrow> ('s, 'a) promise) \<Rightarrow> ('s, 'a) promise" where
  "catch_p p h = (\<lambda>s. case p s of
      (Resolved v, s') \<Rightarrow> (Resolved v, s')
    | (Rejected e, s') \<Rightarrow> h e s')"

definition floating :: "('s, 'a) promise \<Rightarrow> 's \<Rightarrow> 's" where
  "floating p s = snd (p s)"

text \<open>
  A call that throws before it has a promise to return is \<open>Inl\<close> of the error; a call that
  returns its promise is \<open>Inr\<close> of the promise's run. No handler attached to the promise can
  see such an error. Inside a callback of \<open>then\<close> it is different: an exception thrown there
  rejects the promise of the \<open>then\<close> (\<open>in_callback\<close>).
\<close>

definition TypeError :: error where
  "TypeError = Error ''TypeError''"

definition in_callback :: "error + 'a outcome \<times> 's \<Rightarrow> 's \<Rightarrow> 'a outcome \<times> 's" where
  "in_callback r s = (case r of Inl e \<Rightarrow> (Rejected e, s) | Inr settled \<Rightarrow> settled)"

fun is_resolved :: "'a outcome \<Rightarrow> bool" where
  "is_resolved (Resolved v) = True"
| "is_resolved (Rejected e) = False"

text \<open>
  A JavaScript object used as a dictionary: its own string keys in insertion order.
  \<open>obj_put\<close> is the assignment \<open>o[k] = v\<close> (an existing key keeps its position),
  \<open>spread a b\<close> is \<open>{ ...a, ...b }\<close>, \<open>Object_values\<close> is \<open>Object.values\<close>.
\<close>

type_synonym 'v obj = "(string \<times> 'v) list"

fun obj_put :: "'v obj \<Rightarrow> string \<Rightarrow> 'v \<Rightarrow> 'v obj" where
  "obj_put [] k v = [(k, v)]"
| "obj_put ((k', v') # kvs) k v =
     (if k' = k then (k, v) # kvs else (k', v') # obj_put kvs k v)"

definition spread :: "'v obj \<Rightarrow> 'v obj \<Rightarrow> 'v obj" where
  "spread a b = foldl (\<lambda>acc (k, v). obj_put acc k v) a b"

definition Object_values :: "'v obj \<Rightarrow> 'v list" where
  "Object_values ob = map snd ob"

text \<open>\<open>uniq\<close> of lodash keeps the first occurrence of every element, in order.\<close>

fun uniq_into :: "'a list \<Rightarrow> 'a list \<Rightarrow> 'a list" where
  "uniq_into seen [] = seen"
| "uniq_into seen (x # xs) =
     (if x \<in> set seen then uniq_into seen xs else uniq_into (seen @ [x]) xs)"

definition uniq :: "'a list \<Rightarrow> 'a list" where
  "uniq xs = uniq_into [] xs"

text \<open>\<open>chunk(array, size)\<close> of lodash: consecutive slices of \<open>size\<close> elements, the last one
  shorter; no slice for a size below one or an empty array.\<close>

function chunk :: "'a list \<Rightarrow> nat \<Rightarrow> 'a list list" where
  "chunk xs n = (if n = 0 \<or> xs = [] then [] else take n xs # chunk (drop n xs) n)"
  by pat_completeness auto
termination
  by (relation "measure (\<lambda>(xs, n). length xs)") auto

declare chunk.simps [simp del]

section \<open>Tokens: \<open>redux/providers/tokensActions.js\<close>\<close>

subsection \<open>Data\<close>

text \<open>
  A token of the state. The source reads \<open>id\<close>, \<open>index\<close>, \<open>address\<close>, \<open>fetched\<close> and
  \<open>image\<close>; \<open>name\<close>, \<open>symbol\<close> and \<open>format\<close> are the remaining fields of the data model,
  filled by the fetchers of \<open>util/tokens\<close>. An image that is not set is \<open>None\<close>.
\<close>

record token =
  id_t :: string
  index :: nat
  address :: string
  name :: string
  symbol :: string
  format :: nat
  fetched :: bool
  image_t :: "string option"

type_synonym tokens = "token obj"

datatype contract = Contract (contract_address: string)

text \<open>The value kept in the persistent store: \<open>{ tokenreg, tokens }\<close>; \<open>tokens\<close> may be
  missing.\<close>

record cached =
  tokenreg :: string
  cached_tokens :: "tokens option"

text \<open>Every call of a collaborator and every log line the thunks make, in order.\<close>

datatype event =
    GetContract
  | StoreSet string cached
  | StoreRemove string
  | Dispatch tokens
  | FetchTokenIds
  | FetchTokensBasics nat nat
  | FetchTokensInfo "nat list"
  | FetchTokensImages "nat list"
  | IconCacheAdd string "string option"
  | ConsoleError error
  | ConsoleWarn string error

text \<open>
  What the thunks read and change: \<open>getState().tokens\<close>, \<open>getState().nodeStatus.netChain\<close>,
  the persistent key-value store, \<open>iconCache.images\<close>, and the trace of events.
\<close>

record world =
  state_tokens :: tokens
  netChain :: string
  store :: "string \<Rightarrow> cached option"
  images :: "string \<Rightarrow> string option"
  trace :: "event list"

text \<open>
  The collaborators, which are not part of the module. Each answer may depend on everything
  that happened before the call (the trace), so a collaborator may succeed at one call and
  fail at the next. \<open>Inl\<close> is a rejection (or, for \<open>store_set\<close>, a thrown exception).
  \<open>reducer\<close> is the reducer behind \<open>dispatch({ type: 'setTokens', tokens })\<close>: it maps the
  tokens of the state and the dispatched ones to the new tokens of the state.
  \<open>tokenImage\<close> and \<open>imagesError\<close> make up \<open>fetchTokensImages\<close> below.
\<close>

record env =
  getContract :: "event list \<Rightarrow> error + contract"
  store_set :: "event list \<Rightarrow> string \<Rightarrow> cached \<Rightarrow> error option"
  fetchTokenIds :: "event list \<Rightarrow> error + nat list"
  fetchTokensBasics :: "event list \<Rightarrow> nat \<Rightarrow> nat \<Rightarrow> error + token list"
  fetchTokensInfo :: "event list \<Rightarrow> nat list \<Rightarrow> error + token list"
  tokenImage :: "event list \<Rightarrow> nat \<Rightarrow> string option"
  imagesError :: "event list \<Rightarrow> nat list \<Rightarrow> error option"
  reducer :: "tokens \<Rightarrow> tokens \<Rightarrow> tokens"

text \<open>
  Modelled from the spec: \<open>fetchTokensImages\<close> of \<open>util/tokens\<close> is not part of the
  source. It fetches only the images of the indexes it is given; it rejects, or resolves
  to one image per requested index, in the order of the request.
\<close>

definition fetchTokensImages :: "env \<Rightarrow> event list \<Rightarrow> nat list \<Rightarrow> error + string option list" where
  "fetchTokensImages env h indexes =
     (case imagesError env h indexes of
        Some e \<Rightarrow> Inl e
      | None \<Rightarrow> Inr (map (tokenImage env h) indexes))"

definition emit :: "event \<Rightarrow> world \<Rightarrow> world" where
  "emit ev w = w\<lparr>trace := trace w @ [ev]\<rparr>"

text \<open>A collaborator call that returns a promise: the call is recorded, the answer is the
  promise's outcome.\<close>

definition call :: "event \<Rightarrow> (event list \<Rightarrow> error + 'a) \<Rightarrow> (world, 'a) promise" where
  "call ev answer = (\<lambda>w. (case answer (trace w) of
      Inl e \<Rightarrow> (Rejected e, emit ev w)
    | Inr v \<Rightarrow> (Resolved v, emit ev w)))"

text \<open>\<open>.catch((error) => { console.warn(tag, error); })\<close> at the end of a thunk's chain.\<close>

definition console_warn :: "string \<Rightarrow> (world, unit) promise \<Rightarrow> (world, unit) promise" where
  "console_warn tag p = catch_p p (\<lambda>error w. (Resolved (), emit (ConsoleWarn tag error) w))"

definition TOKENS_CACHE_LS_KEY_PREFIX :: string where
  "TOKENS_CACHE_LS_KEY_PREFIX = ''_parity::tokens::''"

subsection \<open>\<open>fetchTokensData\<close>: the classification\<close>

text \<open>
  \<open>tokensIndexesMap\<close>: the \<open>reduce\<close> that assigns \<open>map[token.index] = token\<close> for every
  token of the state in turn, a later token with the same index replacing an earlier one.
\<close>

definition tokensIndexesMap :: "tokens \<Rightarrow> nat \<Rightarrow> token option" where
  "tokensIndexesMap ts = foldl (\<lambda>m t. m(index t \<mapsto> t)) Map.empty (Object_values ts)"

definition fetchedTokenIndexes :: "tokens \<Rightarrow> nat list" where
  "fetchedTokenIndexes ts = map index (filter fetched (Object_values ts))"

text \<open>The \<open>forEach\<close> over the requested indexes, pushing each one onto \<open>partialIndexes\<close> or
  onto \<open>fullIndexes\<close>. The result is the pair \<open>(fullIndexes, partialIndexes)\<close>.\<close>

definition classify_step :: "nat list \<Rightarrow> nat list \<times> nat list \<Rightarrow> nat \<Rightarrow> nat list \<times> nat list" where
  "classify_step fetchedIdx acc tokenIndex =
     (case acc of (fullIndexes, partialIndexes) \<Rightarrow>
        if tokenIndex \<in> set fetchedIdx
        then (fullIndexes, partialIndexes @ [tokenIndex])
        else (fullIndexes @ [tokenIndex], partialIndexes))"

definition classify :: "tokens \<Rightarrow> nat list \<Rightarrow> nat list \<times> nat list" where
  "classify ts tokenIndexes =
     foldl (classify_step (fetchedTokenIndexes ts)) ([], []) tokenIndexes"

definition fullIndexes :: "tokens \<Rightarrow> nat list \<Rightarrow> nat list" where
  "fullIndexes ts tokenIndexes = fst (classify ts tokenIndexes)"

definition partialIndexes :: "tokens \<Rightarrow> nat list \<Rightarrow> nat list" where
  "partialIndexes ts tokenIndexes = snd (classify ts tokenIndexes)"

subsection \<open>\<open>setTokens\<close>\<close>

text \<open>\<open>dispatch(_setTokens(tokens))\<close>: the plain action reaches the reducer at once.\<close>

definition dispatch_setTokens :: "env \<Rightarrow> tokens \<Rightarrow> world \<Rightarrow> world" where
  "dispatch_setTokens env ts w =
     emit (Dispatch ts) (w\<lparr>state_tokens := reducer env (state_tokens w) ts\<rparr>)"

text \<open>\<open>store.set(lsKey, value)\<close> inside a \<open>then\<close> callback: when it throws, nothing is
  written and the promise of the \<open>then\<close> rejects.\<close>

definition store_write :: "env \<Rightarrow> string \<Rightarrow> cached \<Rightarrow> (world, unit) promise" where
  "store_write env lsKey v = (\<lambda>w.
     case store_set env (trace w) lsKey v of
       Some e \<Rightarrow> (Rejected e, emit (StoreSet lsKey v) w)
     | None \<Rightarrow> (Resolved (), emit (StoreSet lsKey v) (w\<lparr>store := (store w)(lsKey \<mapsto> v)\<rparr>)))"

definition store_remove :: "string \<Rightarrow> world \<Rightarrow> world" where
  "store_remove lsKey w = emit (StoreRemove lsKey) (w\<lparr>store := (store w)(lsKey := None)\<rparr>)"

definition setTokens :: "env \<Rightarrow> tokens \<Rightarrow> (world, unit) promise" where
  "setTokens env nextTokens = (\<lambda>w.
     let prevTokens = state_tokens w;
         chain = netChain w;
         tokens = spread prevTokens nextTokens
     in then_p
          (catch_p
             (then_p (call GetContract (getContract env))
                (\<lambda>tokenRegContract.
                   let lsKey = TOKENS_CACHE_LS_KEY_PREFIX @ chain
                   in store_write env lsKey
                        \<lparr>tokenreg = contract_address tokenRegContract,
                         cached_tokens = Some tokens\<rparr>))
             (\<lambda>error w'. (Resolved (), emit (ConsoleError error) w')))
          (\<lambda>_ w'. (Resolved (), dispatch_setTokens env nextTokens w'))
          w)"

subsection \<open>\<open>fetchTokensData\<close>: fetching and merging\<close>

text \<open>
  The callback on the images: \<open>imagesResult.map((image, index) => ...)\<close> reads
  \<open>partialIndexes[index]\<close>, then \<open>tokensIndexesMap[tokenIndex]\<close>, and builds
  \<open>{ ...token, image }\<close>. Where one of the two reads finds nothing the object holds an
  image and no field of a token: that object is \<open>None\<close> here.
\<close>

definition partialResults :: "tokens \<Rightarrow> nat list \<Rightarrow> string option list \<Rightarrow> token option list" where
  "partialResults ts partialIdx imagesResult =
     map (\<lambda>(i, image).
            if i < length partialIdx
            then (case tokensIndexesMap ts (partialIdx ! i) of
                    Some token \<Rightarrow> Some (token\<lparr>image_t := image\<rparr>)
                  | None \<Rightarrow> None)
            else None)
         (enumerate 0 imagesResult)"

definition iconCache_add :: "string \<Rightarrow> string option \<Rightarrow> world \<Rightarrow> world" where
  "iconCache_add addr img w =
     emit (IconCacheAdd addr img) (w\<lparr>images := (images w)(addr := img)\<rparr>)"

text \<open>One step of the final \<open>reduce\<close>: the icon cache takes the image when it differs from
  the one it holds for the address, and \<open>tokens[id] = token\<close>.\<close>

definition merge_step :: "tokens \<times> world \<Rightarrow> token \<Rightarrow> tokens \<times> world" where
  "merge_step acc token =
     (case acc of (tokens, w) \<Rightarrow>
        (obj_put tokens (id_t token) token,
         if images w (address token) \<noteq> image_t token
         then iconCache_add (address token) (image_t token) w
         else w))"

text \<open>\<open>Promise.all([p, q])\<close>: both promises are started, in this order, and the result
  rejects when one of them does.\<close>

definition pair_p :: "('s, 'a) promise \<Rightarrow> ('s, 'b) promise \<Rightarrow> ('s, 'a \<times> 'b) promise" where
  "pair_p p q = (\<lambda>s.
     case p s of (a, s1) \<Rightarrow>
     case q s1 of (b, s2) \<Rightarrow>
       (case a of
          Rejected e \<Rightarrow> Rejected e
        | Resolved x \<Rightarrow> (case b of Rejected e \<Rightarrow> Rejected e | Resolved y \<Rightarrow> Resolved (x, y)),
        s2))"

text \<open>\<open>Promise.all\<close> of a list of promises.\<close>

fun all_p :: "('s, 'a) promise list \<Rightarrow> ('s, 'a list) promise" where
  "all_p [] = resolve []"
| "all_p (p # ps) = (\<lambda>s.
     case pair_p p (all_p ps) s of
       (Resolved (x, xs), s') \<Rightarrow> (Resolved (x # xs), s')
     | (Rejected e, s') \<Rightarrow> (Rejected e, s'))"

text \<open>An object without the fields of a token (\<open>None\<close> above) is left out of the merged
  results; with one image per requested index there is none (lemma \<open>partialResults_Some\<close>).\<close>

definition fetchTokensData :: "env \<Rightarrow> contract \<Rightarrow> nat list \<Rightarrow> (world, unit) promise" where
  "fetchTokensData env tokenRegContract tokenIndexes = (\<lambda>w.
     let tokens = state_tokens w;
         fullIdx = fullIndexes tokens tokenIndexes;
         partialIdx = partialIndexes tokens tokenIndexes;
         fullPromise = call (FetchTokensInfo fullIdx) (\<lambda>h. fetchTokensInfo env h fullIdx);
         partialPromise =
           then_p (call (FetchTokensImages partialIdx) (\<lambda>h. fetchTokensImages env h partialIdx))
             (\<lambda>imagesResult. resolve (partialResults tokens partialIdx imagesResult))
     in then_p
          (then_p (pair_p fullPromise partialPromise)
             (\<lambda>(fullResults, partialResults') w'.
                case foldl merge_step ([], w')
                       (fullResults @ List.map_filter (\<lambda>t. t) partialResults') of
                  (merged, w'') \<Rightarrow> (Resolved merged, w'')))
          (\<lambda>merged w'. (Resolved (), floating (setTokens env merged) w'))
          w)"

subsection \<open>\<open>loadCachedTokens\<close>\<close>

definition loadCachedTokens :: "env \<Rightarrow> contract \<Rightarrow> world \<Rightarrow> world" where
  "loadCachedTokens env tokenRegContract w =
     (let lsKey = TOKENS_CACHE_LS_KEY_PREFIX @ netChain w
      in case store w lsKey of
           None \<Rightarrow> w
         | Some cd \<Rightarrow>
             (case (tokenreg cd = contract_address tokenRegContract, cached_tokens cd) of
                (True, Some cts) \<Rightarrow>
                  let w1 = dispatch_setTokens env cts w;
                      tokenIndexes = map index (filter fetched (Object_values cts))
                  in floating (fetchTokensData env tokenRegContract tokenIndexes) w1
              | _ \<Rightarrow> store_remove lsKey w))"

subsection \<open>\<open>loadTokensBasics\<close>\<close>

definition limit :: nat where
  "limit = 64"

text \<open>
  The \<open>for\<close> loop that chains one \<open>fetchTokensBasics(api, tokenRegContract, start, limit)\<close>
  per step, each followed by \<open>nextTokens[token.id] = token\<close> for every result. A rejection
  ends the chain.
\<close>

function basics_loop :: "env \<Rightarrow> contract \<Rightarrow> nat \<Rightarrow> nat \<Rightarrow> tokens \<Rightarrow> (world, tokens) promise" where
  "basics_loop env c start count nextTokens w =
     (if start < count
      then (case call (FetchTokensBasics start limit) (\<lambda>h. fetchTokensBasics env h start limit) w of
              (Rejected e, w') \<Rightarrow> (Rejected e, w')
            | (Resolved results, w') \<Rightarrow>
                basics_loop env c (start + limit) count
                  (foldl (\<lambda>acc token. obj_put acc (id_t token) token) nextTokens results) w')
      else (Resolved nextTokens, w))"
  by pat_completeness auto
termination
  by (relation "measure (\<lambda>(env, c, start, count, nextTokens, w). count - start)")
     (auto simp: limit_def)

declare basics_loop.simps [simp del]

text \<open>
  \<open>requested\<close> is the parameter \<open>_tokenIndexes\<close>: \<open>Some\<close> of an array, or \<open>None\<close> for
  \<open>null\<close> and \<open>undefined\<close>. The thunk calls \<open>_tokenIndexes.filter\<close> before it has built any
  promise, so without an array it throws a \<open>TypeError\<close>. The \<open>options\<close> argument is not
  used.
\<close>

definition unknownIndexes :: "tokens \<Rightarrow> nat list \<Rightarrow> nat list" where
  "unknownIndexes tokens requested =
     (let prevTokensIndexes = map index (Object_values tokens)
      in filter (\<lambda>tokenIndex. tokenIndex \<notin> set prevTokensIndexes) requested)"

text \<open>The promise chain of \<open>loadTokensBasics\<close> up to its \<open>.catch\<close>.\<close>

definition loadTokensBasics_chain :: "env \<Rightarrow> nat \<Rightarrow> (world, unit) promise" where
  "loadTokensBasics_chain env count =
     then_p
       (then_p (call GetContract (getContract env))
          (\<lambda>tokenRegContract. basics_loop env tokenRegContract 0 count []))
       (\<lambda>nextTokens w'. (Resolved (), floating (setTokens env nextTokens) w'))"

definition loadTokensBasics :: "env \<Rightarrow> nat list option \<Rightarrow> world \<Rightarrow> error + unit outcome \<times> world" where
  "loadTokensBasics env requested w =
     (case requested of
        None \<Rightarrow> Inl TypeError
      | Some requestedIndexes \<Rightarrow>
          Inr (let tokens = state_tokens w;
                   tokenIndexes = unknownIndexes tokens requestedIndexes;
                   count = length tokenIndexes
               in if count = 0 then (Resolved (), w)
                  else console_warn ''tokens::fetchTokens'' (loadTokensBasics_chain env count) w))"

subsection \<open>\<open>loadTokens\<close>\<close>

text \<open>
  The promise chain of \<open>loadTokens\<close> up to its \<open>.catch\<close>. \<open>loadCachedTokens\<close> is called inside
  the first callback and returns nothing: what it starts is not part of this chain. The call
  of the thunk of \<open>loadTokensBasics\<close> is the body of the second callback.
\<close>

definition loadTokens_chain :: "env \<Rightarrow> (world, unit) promise" where
  "loadTokens_chain env =
     then_p
       (then_p (call GetContract (getContract env))
          (\<lambda>tokenRegContract w.
             call FetchTokenIds (fetchTokenIds env) (loadCachedTokens env tokenRegContract w)))
       (\<lambda>tokenIndexes w. in_callback (loadTokensBasics env (Some tokenIndexes) w) w)"

text \<open>
  \<open>loadTokens(options = {})\<close>. An options object is given by its own keys; \<open>undefined\<close>
  takes the default and is \<open>Some []\<close>; \<open>null\<close> is \<open>None\<close>. The first statement,
  \<open>log.debug('loading tokens', Object.keys(options).length ? options : '')\<close>, runs before the
  thunk is built and throws a \<open>TypeError\<close> for \<open>null\<close>; otherwise the options are only
  logged.
\<close>

definition loadTokens :: "env \<Rightarrow> string list option \<Rightarrow> world \<Rightarrow> error + unit outcome \<times> world" where
  "loadTokens env options w =
     (case options of
        None \<Rightarrow> Inl TypeError
      | Some keys \<Rightarrow> Inr (console_warn ''tokens::loadTokens'' (loadTokens_chain env) w))"

subsection \<open>\<open>fetchTokens\<close>\<close>

text \<open>\<open>chunk(uniq(_tokenIndexes || []), 64)\<close>; a \<open>null\<close> or \<open>undefined\<close> argument is
  \<open>None\<close>.\<close>

definition tokenChunks :: "nat list option \<Rightarrow> nat list list" where
  "tokenChunks requested =
     chunk (uniq (case requested of None \<Rightarrow> [] | Some tokenIndexes \<Rightarrow> tokenIndexes)) 64"

text \<open>The promise chain of \<open>fetchTokens\<close> up to its \<open>.catch\<close>.\<close>

definition fetchTokens_chain :: "env \<Rightarrow> nat list option \<Rightarrow> (world, unit) promise" where
  "fetchTokens_chain env requested =
     then_p
       (then_p (call GetContract (getContract env))
          (\<lambda>tokenRegContract.
             foldl (\<lambda>promise tokenChunk.
                      then_p promise (\<lambda>_. fetchTokensData env tokenRegContract tokenChunk))
                   (resolve ()) (tokenChunks requested)))
       (\<lambda>_. resolve ())"

definition fetchTokens :: "env \<Rightarrow> nat list option \<Rightarrow> (world, unit) promise" where
  "fetchTokens env requested = console_warn ''tokens::fetchTokens'' (fetchTokens_chain env requested)"

section \<open>Dapps: the registry fetchers\<close>

subsection \<open>Data\<close>

text \<open>
  An app object. A field that the object does not have (or that is \<open>null\<close>) is \<open>None\<close>;
  \<open>isView\<close> is only ever set to \<open>true\<close>. \<open>truthy\<close> is the truth value JavaScript gives a
  string-valued field.
\<close>

record app =
  id_a :: "string option"
  image_a :: "string option"
  contentHash :: "string option"
  manifestHash :: "string option"
  type_a :: "string option"
  visible :: "bool option"
  isView :: bool
  author :: "string option"
  description :: "string option"
  name_a :: "string option"
  version :: "string option"

definition truthy :: "string option \<Rightarrow> bool" where
  "truthy v = (case v of None \<Rightarrow> False | Some s \<Rightarrow> s \<noteq> [])"

text \<open>The fields of a manifest that \<open>pick\<close> looks for.\<close>

record manifest =
  author_m :: "string option"
  description_m :: "string option"
  name_m :: "string option"
  version_m :: "string option"

text \<open>
  An HTTP response: \<open>response.ok\<close> and the outcome of \<open>response.json()\<close>. A parsed value that
  is falsy (\<open>null\<close>) is \<open>None\<close>; any other value is \<open>Some\<close> of the four fields \<open>pick\<close>
  finds in it.
\<close>

record response =
  ok :: bool
  json :: "error + manifest option"

record subscription =
  block :: nat
  filter_s :: nat

type_synonym bytes = "8 word list"

datatype dapp_event =
    DappGetContract
  | NewFilter
  | Subscribe
  | GetImage "string option"
  | GetContent string
  | GetManifest string
  | Count
  | At nat
  | DappsList
  | HttpFetch string
  | DappWarn string error

text \<open>
  The collaborators of the dapp fetchers: the two configuration lists
  (\<open>dappsViews.json\<close>, \<open>dappsBuiltin.json\<close>), the registry contract, the node, the icon
  cache's \<open>hashToImage\<close> and \<open>fetch\<close>. As for the tokens, an answer may depend on the trace.
\<close>

record dapp_env =
  viewsJson :: "app list"
  builtinJson :: "app list"
  dapp_getContract :: "dapp_event list \<Rightarrow> error + string"
  newFilter :: "dapp_event list \<Rightarrow> error + nat"
  subscribe :: "dapp_event list \<Rightarrow> error + nat"
  getImage :: "dapp_event list \<Rightarrow> string option \<Rightarrow> error + bytes"
  getContent :: "dapp_event list \<Rightarrow> string \<Rightarrow> error + bytes"
  getManifest :: "dapp_event list \<Rightarrow> string \<Rightarrow> error + bytes"
  count_d :: "dapp_event list \<Rightarrow> error + nat"
  at_d :: "dapp_event list \<Rightarrow> nat \<Rightarrow> error + bytes \<times> bytes"
  dappsList :: "dapp_event list \<Rightarrow> error + app list"
  http_fetch :: "dapp_event list \<Rightarrow> string \<Rightarrow> error + response"
  hashToImage :: "bytes \<Rightarrow> string option"

fun is_DappWarn :: "dapp_event \<Rightarrow> bool" where
  "is_DappWarn (DappWarn tag e) = True"
| "is_DappWarn ev = False"

definition dcall :: "dapp_event \<Rightarrow> (dapp_event list \<Rightarrow> error + 'a) \<Rightarrow> (dapp_event list, 'a) promise" where
  "dcall ev answer = (\<lambda>tr. (case answer tr of
      Inl e \<Rightarrow> (Rejected e, tr @ [ev])
    | Inr v \<Rightarrow> (Resolved v, tr @ [ev])))"

text \<open>\<open>.catch((error) => { console.warn(tag, error); })\<close>: the promise resolves to
  \<open>undefined\<close>, which is \<open>None\<close>.\<close>

definition catch_warn :: "string \<Rightarrow> (dapp_event list, 'a option) promise \<Rightarrow> (dapp_event list, 'a option) promise" where
  "catch_warn tag p = catch_p p (\<lambda>error tr. (Resolved None, tr @ [DappWarn tag error]))"

subsection \<open>Hexadecimal strings\<close>

text \<open>\<open>bytesToHex\<close> of the API library: \<open>0x\<close> and two lower-case digits for every byte.\<close>

definition hex_digit :: "nat \<Rightarrow> char" where
  "hex_digit n = ''0123456789abcdef'' ! (n mod 16)"

definition bytesToHex :: "bytes \<Rightarrow> string" where
  "bytesToHex bs = ''0x'' @ concat (map (\<lambda>b. [hex_digit (unat b div 16), hex_digit (unat b mod 16)]) bs)"

text \<open>
  \<open>new BigNumber(s)\<close> for a hexadecimal literal \<open>0x...\<close>, which is what \<open>bytesToHex\<close>
  produces: the number it denotes, and \<open>None\<close> (not a number) for anything else.
\<close>

definition hex_value :: "char \<Rightarrow> nat option" where
  "hex_value c =
     (if c \<in> set ''0123456789'' then Some (of_char c - 48)
      else if c \<in> set ''abcdef'' then Some (of_char c - 87)
      else if c \<in> set ''ABCDEF'' then Some (of_char c - 55)
      else None)"

fun digits_value :: "nat \<Rightarrow> string \<Rightarrow> nat option" where
  "digits_value acc [] = Some acc"
| "digits_value acc (c # cs) =
     (case hex_value c of None \<Rightarrow> None | Some d \<Rightarrow> digits_value (acc * 16 + d) cs)"

definition BigNumber :: "string \<Rightarrow> nat option" where
  "BigNumber s =
     (if take 2 s = ''0x'' \<and> drop 2 s \<noteq> [] then digits_value 0 (drop 2 s) else None)"

text \<open>The number that a byte string denotes, most significant byte first.\<close>

definition bytes_value :: "bytes \<Rightarrow> nat" where
  "bytes_value bs = foldl (\<lambda>acc b. acc * 256 + unat b) 0 bs"

definition gt0 :: "nat option \<Rightarrow> bool" where
  "gt0 v = (case v of None \<Rightarrow> False | Some n \<Rightarrow> 0 < n)"

subsection \<open>\<open>subscribeToChanges\<close>\<close>

text \<open>
  The promise that \<open>subscribeToChanges\<close> returns. The callback handed to \<open>api.subscribe\<close>
  runs at later block notifications, outside this promise.
\<close>

definition subscribeToChanges :: "dapp_env \<Rightarrow> (dapp_event list, subscription) promise" where
  "subscribeToChanges env =
     then_p (dcall DappGetContract (dapp_getContract env))
       (\<lambda>dappRegContract.
          then_p (dcall NewFilter (newFilter env))
            (\<lambda>filterId.
               then_p (dcall Subscribe (subscribe env))
                 (\<lambda>blockSubId. resolve \<lparr>block = blockSubId, filter_s = filterId\<rparr>)))"

subsection \<open>\<open>fetchBuiltinApps\<close>, \<open>fetchLocalApps\<close>\<close>

definition builtinApps :: "dapp_env \<Rightarrow> app list" where
  "builtinApps env =
     map (\<lambda>app. app\<lparr>isView := True\<rparr>) (viewsJson env)
     @ filter (\<lambda>app. truthy (id_a app)) (builtinJson env)"

definition fetchBuiltinApps_chain :: "dapp_env \<Rightarrow> (dapp_event list, app list option) promise" where
  "fetchBuiltinApps_chain env =
       (then_p
          (all_p (map (\<lambda>app. dcall (GetImage (id_a app)) (\<lambda>h. getImage env h (id_a app)))
                      (builtinApps env)))
          (\<lambda>imageIds.
             resolve (Some (map (\<lambda>(app, imageId).
                                   app\<lparr>type_a := Some (if isView app then ''view'' else ''builtin''),
                                       image_a := hashToImage env imageId\<rparr>)
                                (zip (builtinApps env) imageIds)))))"

definition fetchBuiltinApps :: "dapp_env \<Rightarrow> (dapp_event list, app list option) promise" where
  "fetchBuiltinApps env = catch_warn ''DappsStore:fetchBuiltinApps'' (fetchBuiltinApps_chain env)"

definition fetchLocalApps_chain :: "dapp_env \<Rightarrow> (dapp_event list, app list option) promise" where
  "fetchLocalApps_chain env =
       (then_p (dcall DappsList (dappsList env))
          (\<lambda>apps.
             resolve (Some (filter (\<lambda>app. truthy (id_a app) \<and> id_a app \<noteq> Some ''ui'')
                              (map (\<lambda>app. app\<lparr>type_a := Some ''local'', visible := Some True\<rparr>)
                                   apps)))))"

definition fetchLocalApps :: "dapp_env \<Rightarrow> (dapp_event list, app list option) promise" where
  "fetchLocalApps env = catch_warn ''DappsStore:fetchLocal'' (fetchLocalApps_chain env)"

subsection \<open>\<open>fetchRegistryAppIds\<close>\<close>

text \<open>The callback on the registry entries: ids as hexadecimal strings, those that are not
  above zero or that belong to a builtin app filtered out, then \<open>uniq\<close>.\<close>

definition registryAppIds :: "dapp_env \<Rightarrow> (bytes \<times> bytes) list \<Rightarrow> string list" where
  "registryAppIds env appsInfo =
     (let appIds =
            filter (\<lambda>appId. gt0 (BigNumber appId)
                             \<and> find (\<lambda>app. id_a app = Some appId) (builtinApps env) = None)
              (map (\<lambda>(appId, owner). bytesToHex appId) appsInfo)
      in uniq appIds)"

definition fetchRegistryAppIds_chain :: "dapp_env \<Rightarrow> (dapp_event list, string list option) promise" where
  "fetchRegistryAppIds_chain env =
     then_p
       (then_p (dcall Count (count_d env))
          (\<lambda>count. all_p (map (\<lambda>index. dcall (At index) (\<lambda>h. at_d env h index)) [0..<count])))
       (\<lambda>appsInfo. resolve (Some (registryAppIds env appsInfo)))"

definition fetchRegistryAppIds :: "dapp_env \<Rightarrow> (dapp_event list, string list option) promise" where
  "fetchRegistryAppIds env =
     catch_warn ''DappsStore:fetchRegistryAppIds'' (fetchRegistryAppIds_chain env)"

subsection \<open>\<open>fetchManifest\<close>, \<open>fetchRegistryApp\<close>\<close>

text \<open>
  The test \<open>/^(0x)?0+/.test(manifestHash)\<close>: from the start of the string an optional
  \<open>0x\<close>, then at least one \<open>0\<close>. Nothing anchors the end, so whatever follows is accepted.
\<close>

definition zeros_here :: "string \<Rightarrow> bool" where
  "zeros_here s = (case s of [] \<Rightarrow> False | c # _ \<Rightarrow> c = CHR ''0'')"

definition manifest_regex :: "string \<Rightarrow> bool" where
  "manifest_regex s = ((take 2 s = ''0x'' \<and> zeros_here (drop 2 s)) \<or> zeros_here s)"

text \<open>The promise chain of \<open>fetchManifest\<close> from \<open>fetch\<close> up to the \<open>.catch\<close>.\<close>

definition fetchManifest_chain :: "dapp_env \<Rightarrow> string \<Rightarrow> (dapp_event list, manifest option) promise" where
  "fetchManifest_chain env hash =
     (let url = ''/api/content/'' @ hash @ ''/''
      in then_p
           (then_p (dcall (HttpFetch url) (\<lambda>h. http_fetch env h url))
              (\<lambda>response tr.
                 if ok response
                 then (case json response of
                         Inl e \<Rightarrow> (Rejected e, tr)
                       | Inr parsed \<Rightarrow> (Resolved parsed, tr))
                 else (Resolved None, tr)))
           (\<lambda>manifest'. resolve manifest'))"

text \<open>The handler of \<open>fetchManifest\<close> logs and returns \<open>null\<close>.\<close>

definition fetchManifest :: "dapp_env \<Rightarrow> string \<Rightarrow> (dapp_event list, manifest option) promise" where
  "fetchManifest env hash =
     (if manifest_regex hash then resolve None
      else catch_warn ''DappsStore:fetchManifest'' (fetchManifest_chain env hash))"

text \<open>\<open>Object.assign(app, pick(manifest, [...]))\<close>: a field the manifest has replaces the
  app's.\<close>

definition assign_manifest :: "app \<Rightarrow> manifest \<Rightarrow> app" where
  "assign_manifest a m =
     a\<lparr>author := (case author_m m of Some v \<Rightarrow> Some v | None \<Rightarrow> author a),
       description := (case description_m m of Some v \<Rightarrow> Some v | None \<Rightarrow> description a),
       name_a := (case name_m m of Some v \<Rightarrow> Some v | None \<Rightarrow> name_a a),
       version := (case version_m m of Some v \<Rightarrow> Some v | None \<Rightarrow> version a)\<rparr>"

text \<open>The result is \<open>Some\<close> of the app that is kept; \<open>null\<close> (the app is dropped) and
  \<open>undefined\<close> (after a failure) are both \<open>None\<close>.\<close>

definition fetchRegistryApp_chain :: "dapp_env \<Rightarrow> string \<Rightarrow> (dapp_event list, app option) promise" where
  "fetchRegistryApp_chain env appId =
       (then_p
          (then_p
             (pair_p (dcall (GetImage (Some appId)) (\<lambda>h. getImage env h (Some appId)))
                (pair_p (dcall (GetContent appId) (\<lambda>h. getContent env h appId))
                        (dcall (GetManifest appId) (\<lambda>h. getManifest env h appId))))
             (\<lambda>(imageId, contentId, manifestId).
                let app = \<lparr>id_a = Some appId,
                           image_a = hashToImage env imageId,
                           contentHash = Some (drop 2 (bytesToHex contentId)),
                           manifestHash = Some (drop 2 (bytesToHex manifestId)),
                           type_a = Some ''network'',
                           visible = Some True,
                           isView = False,
                           author = None, description = None, name_a = None, version = None\<rparr>
                in then_p (fetchManifest env (drop 2 (bytesToHex manifestId)))
                     (\<lambda>manifest'.
                        resolve (case manifest' of
                                   Some m \<Rightarrow> assign_manifest (app\<lparr>manifestHash := None\<rparr>) m
                                 | None \<Rightarrow> app))))
          (\<lambda>app. resolve (if truthy (manifestHash app) \<or> \<not> truthy (id_a app) then None else Some app)))"

definition fetchRegistryApp :: "dapp_env \<Rightarrow> string \<Rightarrow> (dapp_event list, app option) promise" where
  "fetchRegistryApp env appId =
     catch_warn ''DappsStore:fetchRegistryApp'' (fetchRegistryApp_chain env appId)"

section \<open>Concrete states and collaborators\<close>

text \<open>Two tokens that sit at the same registry index under different ids: the first is
  fully fetched, the second is not.\<close>

definition token_A :: token where
  "token_A = \<lparr>id_t = ''a'', index = 1, address = ''0xaa'', name = ''Alpha'', symbol = ''ALP'',
              format = 18, fetched = True, image_t = None\<rparr>"

definition token_B :: token where
  "token_B = \<lparr>id_t = ''b'', index = 1, address = ''0xbb'', name = ''Beta'', symbol = ''BET'',
              format = 6, fetched = False, image_t = None\<rparr>"

definition fetched_state :: tokens where
  "fetched_state = [(''a'', token_A)]"

definition shared_index_state :: tokens where
  "shared_index_state = [(''a'', token_A), (''b'', token_B)]"

text \<open>A state that knows the token at index \<open>0\<close> by its basic info only.\<close>

definition token_Z :: token where
  "token_Z = \<lparr>id_t = ''z'', index = 0, address = ''0xcc'', name = [], symbol = [],
              format = 0, fetched = False, image_t = None\<rparr>"

definition world_Z :: world where
  "world_Z = \<lparr>state_tokens = [(''z'', token_Z)], netChain = ''kovan'',
              store = (\<lambda>k. None), images = (\<lambda>a. None), trace = []\<rparr>"

text \<open>Collaborators that always answer; a store that refuses to write; a registry contract
  that cannot be resolved.\<close>

definition env_ok :: env where
  "env_ok = \<lparr>getContract = (\<lambda>h. Inr (Contract ''0xreg'')),
             store_set = (\<lambda>h k v. None),
             fetchTokenIds = (\<lambda>h. Inr [0, 1]),
             fetchTokensBasics = (\<lambda>h start lim. Inr []),
             fetchTokensInfo = (\<lambda>h indexes. Inr []),
             tokenImage = (\<lambda>h i. None),
             imagesError = (\<lambda>h indexes. None),
             reducer = spread\<rparr>"


definition env_no_contract :: env where
  "env_no_contract = env_ok\<lparr>getContract := (\<lambda>h. Inl (Error ''no registry''))\<rparr>"

text \<open>A store whose entry for the chain was written for another registry contract, and one
  whose entry was written for the contract that \<open>env_ok\<close> resolves.\<close>

definition world_stale :: world where
  "world_stale = \<lparr>state_tokens = [], netChain = ''kovan'',
       store = (\<lambda>k. if k = ''_parity::tokens::kovan''
                      then Some \<lparr>tokenreg = ''0xold'', cached_tokens = Some fetched_state\<rparr>
                      else None),
       images = (\<lambda>a. None), trace = []\<rparr>"

definition world_fresh :: world where
  "world_fresh = \<lparr>state_tokens = [], netChain = ''kovan'',
       store = (\<lambda>k. if k = ''_parity::tokens::kovan''
                      then Some \<lparr>tokenreg = ''0xreg'', cached_tokens = Some fetched_state\<rparr>
                      else None),
       images = (\<lambda>a. None), trace = []\<rparr>"

text \<open>A registry of five entries, two configured apps with ids, a manifest id whose first
  hexadecimal digit is \<open>0\<close>, and collaborators that always answer.\<close>

definition blank_app :: app where
  "blank_app = \<lparr>id_a = None, image_a = None, contentHash = None, manifestHash = None,
                 type_a = None, visible = None, isView = False, author = None,
                 description = None, name_a = None, version = None\<rparr>"

definition manifest_id_0a :: bytes where
  "manifest_id_0a = 0x0a # replicate 31 0xbc"

definition denv_ok :: dapp_env where
  "denv_ok = \<lparr>viewsJson = [blank_app\<lparr>id_a := Some ''0x03'', name_a := Some ''Status''\<rparr>],
       builtinJson = [blank_app\<lparr>id_a := Some ''0x02'', name_a := Some ''Wallet''\<rparr>,
                      blank_app\<lparr>name_a := Some ''Draft''\<rparr>],
       dapp_getContract = (\<lambda>h. Inr ''0xdappreg''),
       newFilter = (\<lambda>h. Inr 7),
       subscribe = (\<lambda>h. Inr 3),
       getImage = (\<lambda>h appId. Inr [0x01]),
       getContent = (\<lambda>h appId. Inr [0x0c]),
       getManifest = (\<lambda>h appId. Inr manifest_id_0a),
       count_d = (\<lambda>h. Inr 5),
       at_d = (\<lambda>h i. Inr (if i = 2 then [0x02] else if i = 0 \<or> i = 3 then [0x00] else [0x01], [])),
       dappsList = (\<lambda>h. Inr [blank_app\<lparr>id_a := Some ''ui''\<rparr>, blank_app\<lparr>id_a := Some ''chat''\<rparr>]),
       http_fetch = (\<lambda>h url. Inr \<lparr>ok = True,
                                      json = Inr (Some \<lparr>author_m = Some ''dev'', description_m = None,
                                                         name_m = Some ''Chat'', version_m = Some ''1.0''\<rparr>)\<rparr>),
       hashToImage = (\<lambda>hash. Some (''/api/content/'' @ drop 2 (bytesToHex hash)))\<rparr>"

text \<open>The same with a node that rejects every call.\<close>

definition denv_down :: dapp_env where
  "denv_down = denv_ok\<lparr>dapp_getContract := (\<lambda>h. Inl (Error ''rpc down'')),
       newFilter := (\<lambda>h. Inl (Error ''rpc down'')),
       subscribe := (\<lambda>h. Inl (Error ''rpc down'')),
       getImage := (\<lambda>h appId. Inl (Error ''rpc down'')),
       getContent := (\<lambda>h appId. Inl (Error ''rpc down'')),
       getManifest := (\<lambda>h appId. Inl (Error ''rpc down'')),
       count_d := (\<lambda>h. Inl (Error ''rpc down'')),
       at_d := (\<lambda>h i. Inl (Error ''rpc down'')),
       dappsList := (\<lambda>h. Inl (Error ''rpc down'')),
       http_fetch := (\<lambda>h url. Inl (Error ''rpc down''))\<rparr>"

text \<open>Collaborators whose image fetcher rejects.\<close>

definition env_images_fail :: env where
  "env_images_fail = env_ok\<lparr>imagesError := (\<lambda>h indexes. Some (Error ''images down''))\<rparr>"

text \<open>A state that knows the token at index \<open>1\<close> instead.\<close>

definition world_Y :: world where
  "world_Y = \<lparr>state_tokens = [(''a'', token_A)], netChain = ''kovan'',
              store = (\<lambda>k. None), images = (\<lambda>a. None), trace = []\<rparr>"

text \<open>A server that answers every request with a status that is not ok.\<close>

definition denv_not_found :: dapp_env where
  "denv_not_found =
     denv_ok\<lparr>http_fetch := (\<lambda>h url. Inr \<lparr>ok = False, json = Inl (Error ''no body'')\<rparr>)\<rparr>"

text \<open>A registry whose image and content lookups both reject, with different errors.\<close>

definition denv_two_errors :: dapp_env where
  "denv_two_errors = denv_ok\<lparr>getImage := (\<lambda>h appId. Inl (Error ''no image'')),
       getContent := (\<lambda>h appId. Inl (Error ''no content''))\<rparr>"

section \<open>How promises extend the trace\<close>

lemma emit_trace [simp]: "trace (emit ev w) = trace w @ [ev]"
  by (simp add: emit_def)

lemma then_p_prefix:
  assumes "\<And>v s. prefix (tr s) (tr (snd (f v s)))"
  shows "prefix (tr (snd (p s))) (tr (snd (then_p p f s)))"
proof (cases "p s")
  case (Pair r s')
  then show ?thesis
    by (cases r) (simp_all add: then_p_def assms)
qed

lemma then_p_grows:
  assumes "\<And>s. prefix (tr s) (tr (snd (p s)))"
    and "\<And>v s. prefix (tr s) (tr (snd (f v s)))"
  shows "prefix (tr s) (tr (snd (then_p p f s)))"
  using assms(1) [of s] then_p_prefix [of tr f p s, OF assms(2)]
  by (rule prefix_order.trans)

lemma catch_p_grows:
  assumes "\<And>s. prefix (tr s) (tr (snd (p s)))"
    and "\<And>e s. prefix (tr s) (tr (snd (h e s)))"
  shows "prefix (tr s) (tr (snd (catch_p p h s)))"
proof (cases "p s")
  case (Pair r s')
  with assms(1) [of s] have "prefix (tr s) (tr s')" by simp
  with Pair assms(2) show ?thesis
    by (cases r) (auto simp: catch_p_def intro: prefix_order.trans)
qed

lemma pair_p_grows:
  assumes "\<And>s. prefix (tr s) (tr (snd (p s)))"
    and "\<And>s. prefix (tr s) (tr (snd (q s)))"
  shows "prefix (tr s) (tr (snd (pair_p p q s)))"
proof -
  obtain a s1 where p: "p s = (a, s1)" by (cases "p s")
  obtain b s2 where q: "q s1 = (b, s2)" by (cases "q s1")
  from assms(1) [of s] p have "prefix (tr s) (tr s1)" by simp
  moreover from assms(2) [of s1] q have "prefix (tr s1) (tr s2)" by simp
  ultimately have "prefix (tr s) (tr s2)" by (rule prefix_order.trans)
  with p q show ?thesis by (simp add: pair_p_def)
qed

lemma resolve_grows: "prefix (tr s) (tr (snd (resolve v s)))"
  by (simp add: resolve_def)

lemma call_trace: "trace (snd (call ev answer w)) = trace w @ [ev]"
  by (simp add: call_def split: sum.splits)

lemma call_grows: "prefix (trace w) (trace (snd (call ev answer w)))"
  by (simp add: call_trace)

lemma store_write_grows: "prefix (trace w) (trace (snd (store_write env k v w)))"
  by (simp add: store_write_def split: option.splits)

lemma dispatch_trace [simp]: "trace (dispatch_setTokens env ts w) = trace w @ [Dispatch ts]"
  by (simp add: dispatch_setTokens_def)

lemma setTokens_grows: "prefix (trace w) (trace (snd (setTokens env ts w)))"
  unfolding setTokens_def Let_def
  by (intro then_p_grows catch_p_grows call_grows store_write_grows) simp_all

lemma merge_step_grows: "prefix (trace w) (trace (snd (merge_step (acc, w) t)))"
  by (simp add: merge_step_def iconCache_add_def)

lemma merge_fold_grows: "prefix (trace (snd a)) (trace (snd (foldl merge_step a rs)))"
proof (induction rs arbitrary: a)
  case Nil
  show ?case by simp
next
  case (Cons r rs)
  have "prefix (trace (snd a)) (trace (snd (merge_step a r)))"
    using merge_step_grows [of "snd a" "fst a" r] by simp
  then show ?case
    using Cons.IH [of "merge_step a r"] by (auto intro: prefix_order.trans)
qed

lemma floating_setTokens_grows: "prefix (trace w) (trace (floating (setTokens env ts) w))"
  by (simp add: floating_def setTokens_grows)

section \<open>Properties of the classification\<close>

lemma classify_fold:
  "foldl (classify_step fs) (fu, pa) xs =
     (fu @ filter (\<lambda>i. i \<notin> set fs) xs, pa @ filter (\<lambda>i. i \<in> set fs) xs)"
  by (induction xs arbitrary: fu pa) (simp_all add: classify_step_def)

lemma fullIndexes_filter:
  "fullIndexes ts xs = filter (\<lambda>i. i \<notin> set (fetchedTokenIndexes ts)) xs"
  by (simp add: fullIndexes_def classify_def classify_fold)

lemma partialIndexes_filter:
  "partialIndexes ts xs = filter (\<lambda>i. i \<in> set (fetchedTokenIndexes ts)) xs"
  by (simp add: partialIndexes_def classify_def classify_fold)

lemma fetchedTokenIndexes_iff:
  "i \<in> set (fetchedTokenIndexes ts) \<longleftrightarrow>
     (\<exists>t \<in> set (Object_values ts). index t = i \<and> fetched t)"
  by (auto simp: fetchedTokenIndexes_def)

lemma count_list_filter_split:
  "count_list (filter P xs) i + count_list (filter (\<lambda>x. \<not> P x) xs) i = count_list xs i"
  by (induction xs) auto

lemma fetchTokensData_trace:
  "\<exists>rest. trace (snd (fetchTokensData env c xs w)) =
     trace w @ FetchTokensInfo (fullIndexes (state_tokens w) xs)
       # FetchTokensImages (partialIndexes (state_tokens w) xs) # rest"
proof -
  define fu where "fu = fullIndexes (state_tokens w) xs"
  define pa where "pa = partialIndexes (state_tokens w) xs"
  define P where "P = pair_p (call (FetchTokensInfo fu) (\<lambda>h. fetchTokensInfo env h fu))
     (then_p (call (FetchTokensImages pa) (\<lambda>h. fetchTokensImages env h pa))
        (\<lambda>imagesResult. resolve (partialResults (state_tokens w) pa imagesResult)))"
  define M where "M = (\<lambda>(fullResults, partialResults') w'.
                case foldl merge_step ([], w')
                       (fullResults @ List.map_filter (\<lambda>t. t) partialResults') of
                  (merged, w'') \<Rightarrow> (Resolved merged, w''))"
  define S where "S = (\<lambda>merged w'. (Resolved (), floating (setTokens env merged) w'))"
  have eq: "fetchTokensData env c xs w = then_p (then_p P M) S w"
    by (simp add: fetchTokensData_def Let_def P_def M_def S_def fu_def pa_def)
  have tP: "trace (snd (P w)) = trace w @ [FetchTokensInfo fu, FetchTokensImages pa]"
    by (simp add: P_def pair_p_def call_def then_p_def resolve_def split: sum.splits prod.splits)
  have gM: "\<And>v s. prefix (trace s) (trace (snd (M v s)))"
  proof -
    fix v :: "token list \<times> token option list" and s
    obtain a b where v: "v = (a, b)" by (cases v)
    show "prefix (trace s) (trace (snd (M v s)))"
      using merge_fold_grows [of "([], s)" "a @ List.map_filter (\<lambda>t. t) b"]
      by (auto simp: M_def v split: prod.splits)
  qed
  have gS: "\<And>v s. prefix (trace s) (trace (snd (S v s)))"
    by (simp add: S_def floating_setTokens_grows)
  have "prefix (trace (snd (P w))) (trace (snd (then_p P M w)))"
    by (rule then_p_prefix) (rule gM)
  moreover have "prefix (trace (snd (then_p P M w))) (trace (snd (then_p (then_p P M) S w)))"
    by (rule then_p_prefix) (rule gS)
  ultimately have "prefix (trace (snd (P w))) (trace (snd (fetchTokensData env c xs w)))"
    unfolding eq by (rule prefix_order.trans)
  then show ?thesis
    unfolding tP fu_def pa_def by (auto simp: prefix_def)
qed


text \<open>
  C1. \<open>fetchTokensData\<close> asks \<open>fetchTokensInfo\<close> for the full indexes and
  \<open>fetchTokensImages\<close> for the partial ones. A requested index is a partial one exactly
  when the state holds a token with that index whose \<open>fetched\<close> flag is set, it is a full
  one in every other case, and each occurrence of a requested index lands in exactly one
  of the two lists.
\<close>

theorem fetchTokensData_classification:
  "(\<exists>rest. trace (snd (fetchTokensData env c tokenIndexes w)) =
       trace w @ FetchTokensInfo (fullIndexes (state_tokens w) tokenIndexes)
         # FetchTokensImages (partialIndexes (state_tokens w) tokenIndexes) # rest)
   \<and> (i \<in> set (partialIndexes (state_tokens w) tokenIndexes) \<longleftrightarrow>
        i \<in> set tokenIndexes \<and>
        (\<exists>t \<in> set (Object_values (state_tokens w)). index t = i \<and> fetched t))
   \<and> (i \<in> set (fullIndexes (state_tokens w) tokenIndexes) \<longleftrightarrow>
        i \<in> set tokenIndexes \<and>
        \<not> (\<exists>t \<in> set (Object_values (state_tokens w)). index t = i \<and> fetched t))
   \<and> count_list (fullIndexes (state_tokens w) tokenIndexes) i
       + count_list (partialIndexes (state_tokens w) tokenIndexes) i
       = count_list tokenIndexes i
   \<and> set (fullIndexes (state_tokens w) tokenIndexes)
       \<inter> set (partialIndexes (state_tokens w) tokenIndexes) = {}"
proof (intro conjI)
  show "\<exists>rest. trace (snd (fetchTokensData env c tokenIndexes w)) =
       trace w @ FetchTokensInfo (fullIndexes (state_tokens w) tokenIndexes)
         # FetchTokensImages (partialIndexes (state_tokens w) tokenIndexes) # rest"
    by (rule fetchTokensData_trace)
  show "i \<in> set (partialIndexes (state_tokens w) tokenIndexes) \<longleftrightarrow>
        i \<in> set tokenIndexes \<and>
        (\<exists>t \<in> set (Object_values (state_tokens w)). index t = i \<and> fetched t)"
    by (simp add: partialIndexes_filter fetchedTokenIndexes_iff)
  show "i \<in> set (fullIndexes (state_tokens w) tokenIndexes) \<longleftrightarrow>
        i \<in> set tokenIndexes \<and>
        \<not> (\<exists>t \<in> set (Object_values (state_tokens w)). index t = i \<and> fetched t)"
    by (simp add: fullIndexes_filter fetchedTokenIndexes_iff)
  show "count_list (fullIndexes (state_tokens w) tokenIndexes) i
       + count_list (partialIndexes (state_tokens w) tokenIndexes) i
       = count_list tokenIndexes i"
    using count_list_filter_split
      [of "\<lambda>i. i \<in> set (fetchedTokenIndexes (state_tokens w))" tokenIndexes i]
    by (simp add: fullIndexes_filter partialIndexes_filter)
  show "set (fullIndexes (state_tokens w) tokenIndexes)
       \<inter> set (partialIndexes (state_tokens w) tokenIndexes) = {}"
    by (auto simp: fullIndexes_filter partialIndexes_filter)
qed

section \<open>The image-only path\<close>

lemma foldl_index_map:
  "foldl (\<lambda>m t. m(index t \<mapsto> t)) m xs i =
     (case find (\<lambda>t. index t = i) (rev xs) of Some t \<Rightarrow> Some t | None \<Rightarrow> m i)"
  by (induction xs rule: rev_induct) simp_all

lemma tokensIndexesMap_find:
  "tokensIndexesMap ts i = find (\<lambda>t. index t = i) (rev (Object_values ts))"
  by (simp add: tokensIndexesMap_def foldl_index_map split: option.splits)

lemma find_Some_set: "find P xs = Some x \<Longrightarrow> x \<in> set xs \<and> P x"
  by (induction xs) (auto split: if_splits)

lemma tokensIndexesMap_unique:
  assumes "t \<in> set (Object_values ts)"
    and "\<forall>t' \<in> set (Object_values ts). index t' = index t \<longrightarrow> t' = t"
  shows "tokensIndexesMap ts (index t) = Some t"
proof (cases "find (\<lambda>t'. index t' = index t) (rev (Object_values ts))")
  case None
  with assms(1) show ?thesis by (auto simp: find_None_iff)
next
  case (Some t')
  then have "t' \<in> set (Object_values ts)" "index t' = index t"
    using find_Some_set [OF Some] by simp_all
  with assms(2) Some show ?thesis by (simp add: tokensIndexesMap_find)
qed

lemma partialResults_nth:
  assumes "k < length imagesResult" "k < length partialIdx"
  shows "partialResults ts partialIdx imagesResult ! k =
     (case tokensIndexesMap ts (partialIdx ! k) of
        Some token \<Rightarrow> Some (token\<lparr>image_t := imagesResult ! k\<rparr>)
      | None \<Rightarrow> None)"
  using assms by (simp add: partialResults_def nth_enumerate_eq)

text \<open>
  C8, as amended. Let \<open>t\<close> be a token of the state with \<open>fetched\<close> set whose index is
  requested again, and let no other token of the state have the same index. Then the index is
  a partial one, and wherever it stands among the partial indexes the token that the
  image-only path produces is \<open>t\<close> with its image replaced by the fetched one: \<open>id\<close>,
  \<open>index\<close>, \<open>address\<close>, \<open>name\<close>, \<open>symbol\<close>, \<open>format\<close> and \<open>fetched\<close> are those of \<open>t\<close>.
\<close>

theorem partial_path_replaces_only_image:
  assumes "t \<in> set (Object_values ts)" and "fetched t"
    and "index t \<in> set tokenIndexes"
    and "\<forall>t' \<in> set (Object_values ts). index t' = index t \<longrightarrow> t' = t"
  shows "index t \<in> set (partialIndexes ts tokenIndexes)
    \<and> (\<forall>k. k < length (partialIndexes ts tokenIndexes) \<and> k < length imagesResult
            \<and> partialIndexes ts tokenIndexes ! k = index t \<longrightarrow>
          (\<exists>r. partialResults ts (partialIndexes ts tokenIndexes) imagesResult ! k = Some r
             \<and> r = t\<lparr>image_t := imagesResult ! k\<rparr>
             \<and> id_t r = id_t t \<and> index r = index t \<and> address r = address t
             \<and> name r = name t \<and> symbol r = symbol t \<and> format r = format t
             \<and> fetched r = fetched t \<and> image_t r = imagesResult ! k))"
proof
  from assms(1-3) show "index t \<in> set (partialIndexes ts tokenIndexes)"
    by (auto simp: partialIndexes_filter fetchedTokenIndexes_iff)
  show "\<forall>k. k < length (partialIndexes ts tokenIndexes) \<and> k < length imagesResult
            \<and> partialIndexes ts tokenIndexes ! k = index t \<longrightarrow>
          (\<exists>r. partialResults ts (partialIndexes ts tokenIndexes) imagesResult ! k = Some r
             \<and> r = t\<lparr>image_t := imagesResult ! k\<rparr>
             \<and> id_t r = id_t t \<and> index r = index t \<and> address r = address t
             \<and> name r = name t \<and> symbol r = symbol t \<and> format r = format t
             \<and> fetched r = fetched t \<and> image_t r = imagesResult ! k)"
    using tokensIndexesMap_unique [OF assms(1) assms(4)]
    by (simp add: partialResults_nth)
qed

lemma shared_tokensIndexesMap: "tokensIndexesMap shared_index_state (Suc 0) = Some token_B"
  by (simp add: tokensIndexesMap_def shared_index_state_def Object_values_def token_A_def token_B_def)

text \<open>
  The claim without the condition on the index fails: with \<open>token_A\<close> (fetched) and
  \<open>token_B\<close> (not fetched) at the same index, \<open>tokensIndexesMap\<close> holds the later one,
  and the image-only path produces \<open>token_B\<close> with the new image, whose \<open>fetched\<close> flag
  and other fields are not those of \<open>token_A\<close>.
\<close>

theorem partial_path_shared_index_counterexample:
  "token_A \<in> set (Object_values shared_index_state) \<and> fetched token_A
   \<and> index token_A \<in> set [1]
   \<and> partialIndexes shared_index_state [1] = [1]
   \<and> partialResults shared_index_state (partialIndexes shared_index_state [1]) [Some ''new''] ! 0
       = Some (token_B\<lparr>image_t := Some ''new''\<rparr>)
   \<and> token_B\<lparr>image_t := Some ''new''\<rparr> \<noteq> token_A\<lparr>image_t := Some ''new''\<rparr>
   \<and> fetched (token_B\<lparr>image_t := Some ''new''\<rparr>) \<noteq> fetched token_A"
proof -
  have p: "partialIndexes shared_index_state [1] = [1]"
    by (simp add: partialIndexes_filter fetchedTokenIndexes_def shared_index_state_def
        Object_values_def token_A_def token_B_def)
  have r: "partialResults shared_index_state [1] [Some ''new''] ! 0
       = Some (token_B\<lparr>image_t := Some ''new''\<rparr>)"
    by (simp add: partialResults_def shared_tokensIndexesMap)
  show ?thesis
    unfolding p r
    by (simp add: shared_index_state_def Object_values_def token_A_def token_B_def)
qed

theorem partial_path_replaces_only_image_witness:
  "index token_A \<in> set (partialIndexes fetched_state [1])
   \<and> partialResults fetched_state (partialIndexes fetched_state [1]) [Some ''new''] ! 0
       = Some (token_A\<lparr>image_t := Some ''new''\<rparr>)"
proof -
  have a: "token_A \<in> set (Object_values fetched_state)"
    by (simp add: fetched_state_def Object_values_def)
  have b: "fetched token_A" by (simp add: token_A_def)
  have c: "index token_A \<in> set [1]" by (simp add: token_A_def)
  have d: "\<forall>t' \<in> set (Object_values fetched_state). index t' = index token_A \<longrightarrow> t' = token_A"
    by (simp add: fetched_state_def Object_values_def)
  have p: "partialIndexes fetched_state [Suc 0] = [Suc 0]"
    by (simp add: partialIndexes_filter fetchedTokenIndexes_def fetched_state_def
        Object_values_def token_A_def)
  have i: "index token_A = Suc 0" by (simp add: token_A_def)
  from partial_path_replaces_only_image [OF a b c d, of "[Some ''new'']"]
  show ?thesis by (simp add: p i)
qed

section \<open>\<open>setTokens\<close>\<close>








section \<open>\<open>loadCachedTokens\<close>\<close>

lemma fetchTokensData_grows: "prefix (trace w) (trace (snd (fetchTokensData env c xs w)))"
  using fetchTokensData_trace [of env c xs w] by (auto simp: prefix_def)

lemma loadCachedTokens_mismatch:
  assumes "store w (TOKENS_CACHE_LS_KEY_PREFIX @ netChain w) = Some cd"
    and "tokenreg cd \<noteq> contract_address c"
  shows "loadCachedTokens env c w = store_remove (TOKENS_CACHE_LS_KEY_PREFIX @ netChain w) w"
  using assms by (simp add: loadCachedTokens_def Let_def split: option.splits)

lemma loadCachedTokens_match:
  assumes "store w (TOKENS_CACHE_LS_KEY_PREFIX @ netChain w) = Some cd"
    and "tokenreg cd = contract_address c" and "cached_tokens cd = Some cts"
  shows "loadCachedTokens env c w =
     floating (fetchTokensData env c (map index (filter fetched (Object_values cts))))
       (dispatch_setTokens env cts w)"
  using assms by (simp add: loadCachedTokens_def Let_def)

text \<open>
  C3. Let the store hold an entry under the prefix followed by the chain name. When the
  entry's \<open>tokenreg\<close> differs from the address of the resolved contract, \<open>loadCachedTokens\<close>
  does nothing but remove the entry: the tokens of the state are untouched, nothing is
  dispatched, and the key is gone from the store. When the addresses are equal and the
  entry has tokens, these are dispatched first. So a dispatch happens only for an entry
  whose address is that of the resolved contract.
\<close>

theorem loadCachedTokens_trusts_matching_registry_only:
  assumes "store w (TOKENS_CACHE_LS_KEY_PREFIX @ netChain w) = Some cd"
  shows "(tokenreg cd \<noteq> contract_address c \<longrightarrow>
            state_tokens (loadCachedTokens env c w) = state_tokens w
            \<and> store (loadCachedTokens env c w) =
                (store w)(TOKENS_CACHE_LS_KEY_PREFIX @ netChain w := None)
            \<and> trace (loadCachedTokens env c w) =
                trace w @ [StoreRemove (TOKENS_CACHE_LS_KEY_PREFIX @ netChain w)])
    \<and> (\<forall>cts. tokenreg cd = contract_address c \<and> cached_tokens cd = Some cts \<longrightarrow>
          (\<exists>rest. trace (loadCachedTokens env c w) = trace w @ Dispatch cts # rest))
    \<and> ((\<exists>ts. Dispatch ts \<in> set (drop (length (trace w)) (trace (loadCachedTokens env c w))))
          \<longrightarrow> tokenreg cd = contract_address c)"
proof (intro conjI allI impI)
  assume ne: "tokenreg cd \<noteq> contract_address c"
  show "state_tokens (loadCachedTokens env c w) = state_tokens w"
    by (simp add: loadCachedTokens_mismatch [OF assms ne] store_remove_def emit_def)
  show "store (loadCachedTokens env c w) =
          (store w)(TOKENS_CACHE_LS_KEY_PREFIX @ netChain w := None)"
    by (simp add: loadCachedTokens_mismatch [OF assms ne] store_remove_def emit_def)
  show "trace (loadCachedTokens env c w) =
          trace w @ [StoreRemove (TOKENS_CACHE_LS_KEY_PREFIX @ netChain w)]"
    by (simp add: loadCachedTokens_mismatch [OF assms ne] store_remove_def emit_def)
next
  fix cts
  assume m: "tokenreg cd = contract_address c \<and> cached_tokens cd = Some cts"
  have "prefix (trace (dispatch_setTokens env cts w))
     (trace (loadCachedTokens env c w))"
    using m fetchTokensData_grows [of "dispatch_setTokens env cts w" env c
        "map index (filter fetched (Object_values cts))"]
    by (simp add: loadCachedTokens_match [OF assms] floating_def)
  then show "\<exists>rest. trace (loadCachedTokens env c w) = trace w @ Dispatch cts # rest"
    by (auto simp: prefix_def)
next
  assume d: "\<exists>ts. Dispatch ts \<in> set (drop (length (trace w)) (trace (loadCachedTokens env c w)))"
  show "tokenreg cd = contract_address c"
  proof (rule ccontr)
    assume ne: "tokenreg cd \<noteq> contract_address c"
    have "trace (loadCachedTokens env c w) =
          trace w @ [StoreRemove (TOKENS_CACHE_LS_KEY_PREFIX @ netChain w)]"
      by (simp add: loadCachedTokens_mismatch [OF assms ne] store_remove_def emit_def)
    with d show False by simp
  qed
qed

theorem loadCachedTokens_trusts_matching_registry_only_witness:
  "store world_stale (TOKENS_CACHE_LS_KEY_PREFIX @ netChain world_stale) =
      Some \<lparr>tokenreg = ''0xold'', cached_tokens = Some fetched_state\<rparr>
   \<and> state_tokens (loadCachedTokens env_ok (Contract ''0xreg'') world_stale) = []
   \<and> store (loadCachedTokens env_ok (Contract ''0xreg'') world_stale) ''_parity::tokens::kovan''
        = None
   \<and> trace (loadCachedTokens env_ok (Contract ''0xreg'') world_stale) =
        [StoreRemove ''_parity::tokens::kovan'']
   \<and> take 1 (trace (loadCachedTokens env_ok (Contract ''0xreg'') world_fresh)) =
        [Dispatch fetched_state]"
proof -
  have s: "store world_stale (TOKENS_CACHE_LS_KEY_PREFIX @ netChain world_stale) =
      Some \<lparr>tokenreg = ''0xold'', cached_tokens = Some fetched_state\<rparr>"
    by (simp add: world_stale_def TOKENS_CACHE_LS_KEY_PREFIX_def)
  have f: "store world_fresh (TOKENS_CACHE_LS_KEY_PREFIX @ netChain world_fresh) =
      Some \<lparr>tokenreg = ''0xreg'', cached_tokens = Some fetched_state\<rparr>"
    by (simp add: world_fresh_def TOKENS_CACHE_LS_KEY_PREFIX_def)
  have "trace (loadCachedTokens env_ok (Contract ''0xreg'') world_stale) =
        [StoreRemove ''_parity::tokens::kovan'']"
    and "state_tokens (loadCachedTokens env_ok (Contract ''0xreg'') world_stale) = []"
    and "store (loadCachedTokens env_ok (Contract ''0xreg'') world_stale) ''_parity::tokens::kovan''
        = None"
    using loadCachedTokens_trusts_matching_registry_only
      [OF s, of "Contract ''0xreg''" env_ok]
    by (simp_all add: world_stale_def TOKENS_CACHE_LS_KEY_PREFIX_def)
  moreover have "take 1 (trace (loadCachedTokens env_ok (Contract ''0xreg'') world_fresh)) =
        [Dispatch fetched_state]"
    using loadCachedTokens_trusts_matching_registry_only
      [OF f, of "Contract ''0xreg''" env_ok]
    by (auto simp: world_fresh_def)
  ultimately show ?thesis using s by simp
qed

section \<open>\<open>fetchTokens\<close> and \<open>loadTokensBasics\<close>\<close>

lemma console_warn_resolves: "fst (console_warn tag p w) = Resolved ()"
proof (cases "p w")
  case (Pair r w')
  then show ?thesis by (cases r) (simp_all add: console_warn_def catch_p_def)
qed

lemma console_warn_logs:
  "p w = (Rejected e, w') \<Longrightarrow> console_warn tag p w = (Resolved (), emit (ConsoleWarn tag e) w')"
  by (simp add: console_warn_def catch_p_def)

lemma console_warn_passes:
  "p w = (Resolved v, w') \<Longrightarrow> console_warn tag p w = (Resolved v, w')"
  by (simp add: console_warn_def catch_p_def)

lemma tokenChunks_None: "tokenChunks None = []"
  by (simp add: tokenChunks_def uniq_def chunk.simps)

lemma fetchTokens_chain_None:
  "fetchTokens_chain env None w =
     (case getContract env (trace w) of
        Inl e \<Rightarrow> (Rejected e, emit GetContract w)
      | Inr c \<Rightarrow> (Resolved (), emit GetContract w))"
  by (simp add: fetchTokens_chain_def tokenChunks_None then_p_def call_def resolve_def
      split: sum.splits)

text \<open>
  C10. With \<open>null\<close> or \<open>undefined\<close> for the indexes there is no chunk. \<open>fetchTokens\<close> then
  resolves the registry contract and does nothing else: no fetcher is called, the state,
  the store and the icon cache are untouched, and the promise resolves (a contract that
  does not resolve is logged by the handler).
\<close>

theorem fetchTokens_without_indexes:
  "tokenChunks None = []
   \<and> fetchTokens env None w =
       (Resolved (),
        case getContract env (trace w) of
          Inl e \<Rightarrow> w\<lparr>trace := trace w @ [GetContract, ConsoleWarn ''tokens::fetchTokens'' e]\<rparr>
        | Inr c \<Rightarrow> w\<lparr>trace := trace w @ [GetContract]\<rparr>)"
proof (cases "getContract env (trace w)")
  case (Inl e)
  then have "fetchTokens_chain env None w = (Rejected e, emit GetContract w)"
    by (simp add: fetchTokens_chain_None)
  then show ?thesis
    by (simp add: fetchTokens_def console_warn_logs tokenChunks_None Inl emit_def)
next
  case (Inr c)
  then have "fetchTokens_chain env None w = (Resolved (), emit GetContract w)"
    by (simp add: fetchTokens_chain_None)
  then show ?thesis
    by (simp add: fetchTokens_def console_warn_passes tokenChunks_None Inr emit_def)
qed

lemma basics_loop_one_window:
  assumes "0 < count" and "count \<le> limit"
    and "fetchTokensBasics env (trace w) 0 limit = Inr results"
  shows "basics_loop env c 0 count [] w =
     (Resolved (foldl (\<lambda>acc token. obj_put acc (id_t token) token) [] results),
      emit (FetchTokensBasics 0 limit) w)"
proof -
  have stop: "\<And>nt w'. basics_loop env c limit count nt w' = (Resolved nt, w')"
    using assms(2) by (subst basics_loop.simps) simp
  show ?thesis
    using assms(1,3) by (subst basics_loop.simps) (simp add: call_def stop)
qed

lemma loadTokensBasics_one_unknown:
  assumes "length (unknownIndexes (state_tokens w) requested) = Suc 0"
    and "getContract env = (\<lambda>h. Inr (Contract ''0xreg''))"
    and "store_set env = (\<lambda>h k v. None)"
    and "fetchTokensBasics env = (\<lambda>h start lim. Inr [])"
  shows "\<exists>w'. loadTokensBasics env (Some requested) w = Inr (Resolved (), w')
     \<and> state_tokens w' = reducer env (state_tokens w) []
     \<and> trace w' =
        trace w @ [GetContract, FetchTokensBasics 0 64, GetContract,
          StoreSet (TOKENS_CACHE_LS_KEY_PREFIX @ netChain w)
            \<lparr>tokenreg = ''0xreg'', cached_tokens = Some (state_tokens w)\<rparr>,
          Dispatch []]"
proof -
  have l: "basics_loop env (Contract ''0xreg'') 0 (Suc 0) [] (emit GetContract w) =
     (Resolved [], emit (FetchTokensBasics 0 limit) (emit GetContract w))"
    using basics_loop_one_window [of "Suc 0" env "emit GetContract w" "[]" "Contract ''0xreg''"]
    by (simp add: limit_def assms(4))
  have c: "loadTokensBasics_chain env (Suc 0) w =
     (Resolved (),
      floating (setTokens env []) (emit (FetchTokensBasics 0 limit) (emit GetContract w)))"
    using l by (simp add: loadTokensBasics_chain_def then_p_def call_def assms(2))
  have s: "trace (floating (setTokens env [])
              (emit (FetchTokensBasics 0 limit) (emit GetContract w))) =
     trace w @ [GetContract, FetchTokensBasics 0 64, GetContract,
        StoreSet (TOKENS_CACHE_LS_KEY_PREFIX @ netChain w)
          \<lparr>tokenreg = ''0xreg'', cached_tokens = Some (state_tokens w)\<rparr>,
        Dispatch []]"
    and t: "state_tokens (floating (setTokens env [])
              (emit (FetchTokensBasics 0 limit) (emit GetContract w))) =
            reducer env (state_tokens w) []"
    by (simp_all add: floating_def setTokens_def Let_def then_p_def catch_p_def call_def
        store_write_def dispatch_setTokens_def emit_def assms(2,3) limit_def spread_def)
  from assms(1) have "unknownIndexes (state_tokens w) requested \<noteq> []"
    by auto
  with assms(1) have "loadTokensBasics env (Some requested) w =
      Inr (Resolved (),
           floating (setTokens env []) (emit (FetchTokensBasics 0 limit) (emit GetContract w)))"
    by (simp add: loadTokensBasics_def Let_def
        console_warn_passes [where p = "loadTokensBasics_chain env (Suc 0)", OF c])
  with s t show ?thesis
    by simp
qed

lemma env_ok_fields:
  "getContract env_ok = (\<lambda>h. Inr (Contract ''0xreg''))"
  "store_set env_ok = (\<lambda>h k v. None)"
  "fetchTokensBasics env_ok = (\<lambda>h start lim. Inr [])"
  by (simp_all add: env_ok_def)

text \<open>
  C2 at two concrete states. The first state knows the token at index \<open>0\<close>; indexes \<open>0\<close>
  and \<open>1\<close> are requested. The filter leaves \<open>[1]\<close>, but only its length reaches the loop,
  which asks \<open>fetchTokensBasics\<close> for the window of \<open>64\<close> registry slots that starts at slot
  \<open>0\<close>: the index already in the state lies in that window. The second state knows the
  token at index \<open>1\<close> instead, the filter leaves \<open>[0]\<close>, and the very same call is made:
  which indexes are missing has no influence on what is fetched.
\<close>

theorem loadTokensBasics_window_covers_known_index:
  "token_Z \<in> set (Object_values (state_tokens world_Z)) \<and> index token_Z = 0
   \<and> unknownIndexes (state_tokens world_Z) [0, 1] = [1]
   \<and> (\<exists>w'. loadTokensBasics env_ok (Some [0, 1]) world_Z = Inr (Resolved (), w')
         \<and> trace w' =
             [GetContract, FetchTokensBasics 0 64, GetContract,
              StoreSet ''_parity::tokens::kovan''
                \<lparr>tokenreg = ''0xreg'', cached_tokens = Some [(''z'', token_Z)]\<rparr>,
              Dispatch []])
   \<and> index token_Z \<in> {0 ..< 0 + 64}
   \<and> unknownIndexes (state_tokens world_Y) [0, 1] = [0]
   \<and> (\<exists>w'. loadTokensBasics env_ok (Some [0, 1]) world_Y = Inr (Resolved (), w')
         \<and> trace w' =
             [GetContract, FetchTokensBasics 0 64, GetContract,
              StoreSet ''_parity::tokens::kovan''
                \<lparr>tokenreg = ''0xreg'', cached_tokens = Some [(''a'', token_A)]\<rparr>,
              Dispatch []])"
proof -
  have z: "unknownIndexes (state_tokens world_Z) [0, 1] = [1]"
    by (simp add: unknownIndexes_def world_Z_def Object_values_def token_Z_def)
  have y: "unknownIndexes (state_tokens world_Y) [0, 1] = [0]"
    by (simp add: unknownIndexes_def world_Y_def Object_values_def token_A_def)
  have "\<exists>w'. loadTokensBasics env_ok (Some [0, 1]) world_Z = Inr (Resolved (), w')
         \<and> trace w' =
             [GetContract, FetchTokensBasics 0 64, GetContract,
              StoreSet ''_parity::tokens::kovan''
                \<lparr>tokenreg = ''0xreg'', cached_tokens = Some [(''z'', token_Z)]\<rparr>,
              Dispatch []]"
    using loadTokensBasics_one_unknown [of world_Z "[0, 1]" env_ok, OF _ env_ok_fields]
    unfolding z by (auto simp: world_Z_def TOKENS_CACHE_LS_KEY_PREFIX_def)
  moreover have "\<exists>w'. loadTokensBasics env_ok (Some [0, 1]) world_Y = Inr (Resolved (), w')
         \<and> trace w' =
             [GetContract, FetchTokensBasics 0 64, GetContract,
              StoreSet ''_parity::tokens::kovan''
                \<lparr>tokenreg = ''0xreg'', cached_tokens = Some [(''a'', token_A)]\<rparr>,
              Dispatch []]"
    using loadTokensBasics_one_unknown [of world_Y "[0, 1]" env_ok, OF _ env_ok_fields]
    unfolding y by (auto simp: world_Y_def TOKENS_CACHE_LS_KEY_PREFIX_def)
  moreover have "token_Z \<in> set (Object_values (state_tokens world_Z))" "index token_Z = 0"
    by (simp_all add: world_Z_def Object_values_def token_Z_def)
  ultimately show ?thesis
    unfolding z y by simp
qed

section \<open>Manifests\<close>

lemma manifest_regex_iff: "manifest_regex s \<longleftrightarrow> (\<exists>r. s = CHR ''0'' # r)"
  by (cases s) (auto simp: manifest_regex_def zeros_here_def split: list.splits)

lemma fetchManifest_skips:
  "manifest_regex hash \<Longrightarrow> fetchManifest env hash tr = (Resolved None, tr)"
  by (simp add: fetchManifest_def resolve_def)

text \<open>
  C9. For a manifest hash that matches \<open>/^(0x)?0+/\<close>, \<open>fetchManifest\<close> resolves to \<open>null\<close>
  and leaves the trace as it was: no HTTP request is made.
\<close>

theorem fetchManifest_matching_hash_no_request:
  "manifest_regex hash \<Longrightarrow> fetchManifest env hash tr = (Resolved None, tr)"
  by (rule fetchManifest_skips)

theorem fetchManifest_matching_hash_no_request_witness:
  "manifest_regex ''0x0000'' \<and> manifest_regex ''000''
   \<and> fetchManifest denv_ok ''0x0000'' [] = (Resolved None, [])
   \<and> fetchManifest denv_ok ''000'' [Count] = (Resolved None, [Count])"
proof -
  have a: "manifest_regex ''0x0000''" and b: "manifest_regex ''000''"
    by (simp_all add: manifest_regex_def zeros_here_def)
  from fetchManifest_matching_hash_no_request [OF a, of denv_ok "[]"]
    fetchManifest_matching_hash_no_request [OF b, of denv_ok "[Count]"] a b
  show ?thesis by simp
qed

lemma hex_digit_zero: "n < 16 \<Longrightarrow> hex_digit (n div 16) = CHR ''0''"
  by (simp add: hex_digit_def)

lemma bytesToHex_leading_zero:
  "unat b < 16 \<Longrightarrow> manifest_regex (drop 2 (bytesToHex (b # bs)))"
  by (simp add: bytesToHex_def manifest_regex_iff hex_digit_def)

lemma catch_warn_passes:
  "p tr = (Resolved v, tr') \<Longrightarrow> catch_warn tag p tr = (Resolved v, tr')"
  by (simp add: catch_warn_def catch_p_def)

lemma catch_warn_logs:
  "p tr = (Rejected e, tr') \<Longrightarrow> catch_warn tag p tr = (Resolved None, tr' @ [DappWarn tag e])"
  by (simp add: catch_warn_def catch_p_def)

lemma catch_warn_resolves: "is_resolved (fst (catch_warn tag p tr))"
proof (cases "p tr")
  case (Pair r tr')
  then show ?thesis by (cases r) (simp_all add: catch_warn_def catch_p_def)
qed

text \<open>
  C5 at a concrete registry entry. The manifest id \<open>0x0abcbc...bc\<close> is not zero, but its
  hexadecimal form begins with the digit \<open>0\<close>, which is all the test of \<open>fetchManifest\<close>
  looks at: \<open>fetchRegistryApp\<close> makes the three registry calls and no HTTP request, and
  drops the app.
\<close>

theorem fetchRegistryApp_nonzero_manifest_not_requested:
  "manifest_id_0a \<noteq> replicate 32 0
   \<and> getManifest denv_ok [GetImage (Some ''0x01''), GetContent ''0x01''] ''0x01''
        = Inr manifest_id_0a
   \<and> fetchRegistryApp denv_ok ''0x01'' [] =
        (Resolved None, [GetImage (Some ''0x01''), GetContent ''0x01'', GetManifest ''0x01''])"
proof -
  have nz: "manifest_id_0a \<noteq> replicate 32 0"
  proof
    assume "manifest_id_0a = replicate 32 0"
    then have "hd manifest_id_0a = hd (replicate 32 0)"
      by (rule arg_cong)
    then show False
      by (simp add: manifest_id_0a_def)
  qed
  have rx: "manifest_regex (drop 2 (bytesToHex manifest_id_0a))"
    unfolding manifest_id_0a_def by (rule bytesToHex_leading_zero) simp
  then have ne: "drop 2 (bytesToHex manifest_id_0a) \<noteq> []"
    by (auto simp: manifest_regex_iff)
  have "fetchRegistryApp_chain denv_ok ''0x01'' [] =
        (Resolved None, [GetImage (Some ''0x01''), GetContent ''0x01'', GetManifest ''0x01''])"
    using ne
    by (simp add: fetchRegistryApp_chain_def then_p_def pair_p_def dcall_def resolve_def
        fetchManifest_skips [OF rx] truthy_def denv_ok_def)
  then show ?thesis
    using nz by (simp add: fetchRegistryApp_def catch_warn_passes denv_ok_def)
qed

section \<open>\<open>fetchRegistryAppIds\<close>\<close>

lemma uniq_into_distinct: "distinct seen \<Longrightarrow> distinct (uniq_into seen xs)"
  by (induction xs arbitrary: seen) simp_all

lemma uniq_into_set: "set (uniq_into seen xs) = set seen \<union> set xs"
  by (induction xs arbitrary: seen) auto

lemma uniq_distinct: "distinct (uniq xs)"
  by (simp add: uniq_def uniq_into_distinct)

lemma uniq_set: "set (uniq xs) = set xs"
  by (simp add: uniq_def uniq_into_set)

lemma catch_warn_Some:
  assumes "catch_warn tag p tr = (Resolved (Some v), tr')"
  shows "p tr = (Resolved (Some v), tr')"
proof (cases "p tr")
  case (Pair r s)
  with assms show ?thesis
    by (cases r) (simp_all add: catch_warn_def catch_p_def)
qed

lemma then_p_resolved:
  assumes "then_p p f s = (Resolved v, s')"
  shows "\<exists>x s1. p s = (Resolved x, s1) \<and> f x s1 = (Resolved v, s')"
proof (cases "p s")
  case (Pair r s1)
  with assms show ?thesis
    by (cases r) (simp_all add: then_p_def)
qed

lemma then_p_Resolved: "p s = (Resolved x, s1) \<Longrightarrow> then_p p f s = f x s1"
  by (simp add: then_p_def)

lemma then_p_Rejected: "p s = (Rejected e, s1) \<Longrightarrow> then_p p f s = (Rejected e, s1)"
  by (simp add: then_p_def)

lemma fetchRegistryAppIds_shape:
  assumes "fetchRegistryAppIds env tr = (Resolved (Some appIds), tr')"
  shows "\<exists>appsInfo. appIds = registryAppIds env appsInfo"
proof -
  from assms have "fetchRegistryAppIds_chain env tr = (Resolved (Some appIds), tr')"
    unfolding fetchRegistryAppIds_def by (rule catch_warn_Some)
  from then_p_resolved [OF this [unfolded fetchRegistryAppIds_chain_def]]
  show ?thesis
    by (auto simp: resolve_def)
qed

lemma hex_value_hex_digit: "k < 16 \<Longrightarrow> hex_value (hex_digit k) = Some k"
proof -
  assume "k < 16"
  then have "k = 0 \<or> k = 1 \<or> k = 2 \<or> k = 3 \<or> k = 4 \<or> k = 5 \<or> k = 6 \<or> k = 7
      \<or> k = 8 \<or> k = 9 \<or> k = 10 \<or> k = 11 \<or> k = 12 \<or> k = 13 \<or> k = 14 \<or> k = 15"
    by arith
  then show ?thesis
    by (elim disjE) (simp_all add: hex_digit_def hex_value_def)
qed

lemma byte_high_digit: "unat (b :: 8 word) div 16 < 16"
proof -
  have "unat b < 2 ^ LENGTH(8)" by (rule unsigned_less)
  then show ?thesis by simp
qed

lemma digits_value_bytes:
  "digits_value acc (concat (map (\<lambda>b. [hex_digit (unat b div 16), hex_digit (unat b mod 16)]) (bs :: bytes)))
     = Some (foldl (\<lambda>acc b. acc * 256 + unat b) acc bs)"
proof (induction bs arbitrary: acc)
  case Nil
  show ?case by simp
next
  case (Cons b bs)
  have "(acc * 16 + unat b div 16) * 16 + unat b mod 16 = acc * 256 + unat b"
    by (simp add: algebra_simps)
  moreover have "hex_value (hex_digit (unat b div 16)) = Some (unat b div 16)"
    by (rule hex_value_hex_digit) (rule byte_high_digit)
  moreover have "hex_value (hex_digit (unat b mod 16)) = Some (unat b mod 16)"
    by (rule hex_value_hex_digit) simp
  ultimately show ?case
    by (simp add: Cons.IH ac_simps)
qed

lemma BigNumber_bytesToHex:
  "BigNumber (bytesToHex bs) = (if bs = [] then None else Some (bytes_value bs))"
proof -
  let ?ds = "concat (map (\<lambda>b. [hex_digit (unat b div 16), hex_digit (unat b mod 16)]) bs)"
  have t: "take 2 (bytesToHex bs) = ''0x''" and d: "drop 2 (bytesToHex bs) = ?ds"
    by (simp_all add: bytesToHex_def)
  have ne: "?ds = [] \<longleftrightarrow> bs = []"
    by (cases bs) simp_all
  show ?thesis
    unfolding BigNumber_def t d digits_value_bytes bytes_value_def
    using ne by simp
qed

text \<open>
  C6. When \<open>fetchRegistryAppIds\<close> resolves to a list of ids, no id occurs twice in it, every
  id denotes a number above zero (it is the hexadecimal form of a byte string whose value is
  not zero), and no id is the id of an app of the builtin list.
\<close>

theorem fetchRegistryAppIds_distinct_nonzero_not_builtin:
  assumes "fetchRegistryAppIds env tr = (Resolved (Some appIds), tr')"
  shows "distinct appIds
    \<and> (\<forall>appId \<in> set appIds. (\<exists>n. BigNumber appId = Some n \<and> 0 < n) \<and> BigNumber appId \<noteq> Some 0)
    \<and> (\<forall>appId \<in> set appIds. \<exists>bs. appId = bytesToHex bs \<and> 0 < bytes_value bs)
    \<and> (\<forall>appId \<in> set appIds. \<forall>app \<in> set (builtinApps env). id_a app \<noteq> Some appId)"
proof -
  from fetchRegistryAppIds_shape [OF assms] obtain appsInfo where
    "appIds = registryAppIds env appsInfo"
    by blast
  then have ids: "appIds =
     uniq (filter (\<lambda>appId. gt0 (BigNumber appId)
                            \<and> find (\<lambda>app. id_a app = Some appId) (builtinApps env) = None)
             (map (\<lambda>(appId, owner). bytesToHex appId) appsInfo))"
    by (simp add: registryAppIds_def)
  have "distinct appIds"
    by (simp add: ids uniq_distinct)
  moreover have "\<forall>appId \<in> set appIds.
      (\<exists>n. BigNumber appId = Some n \<and> 0 < n) \<and> BigNumber appId \<noteq> Some 0"
    by (auto simp: ids uniq_set gt0_def split: option.splits)
  moreover have "\<forall>appId \<in> set appIds. \<exists>bs. appId = bytesToHex bs \<and> 0 < bytes_value bs"
  proof
    fix appId
    assume "appId \<in> set appIds"
    then obtain bs where "appId = bytesToHex bs" "gt0 (BigNumber (bytesToHex bs))"
      by (auto simp: ids uniq_set)
    then show "\<exists>bs. appId = bytesToHex bs \<and> 0 < bytes_value bs"
      by (auto simp: BigNumber_bytesToHex gt0_def split: if_splits)
  qed
  moreover have "\<forall>appId \<in> set appIds. \<forall>app \<in> set (builtinApps env). id_a app \<noteq> Some appId"
    by (auto simp: ids uniq_set find_None_iff)
  ultimately show ?thesis by simp
qed

lemma all_p_at_5:
  "all_p (map (\<lambda>index. dcall (At index) (\<lambda>h. at_d denv_ok h index)) [0, 1, 2, 3, 4]) tr =
     (Resolved [([0x00], []), ([0x01], []), ([0x02], []), ([0x00], []), ([0x01], [])],
      tr @ [At 0, At 1, At 2, At 3, At 4])"
  by (simp add: pair_p_def dcall_def resolve_def denv_ok_def)

lemma upt_5: "[0..<5] = [0, 1, 2, 3, 4]"
  by (simp add: upt_rec)

theorem fetchRegistryAppIds_distinct_nonzero_not_builtin_witness:
  "fetchRegistryAppIds denv_ok [] = (Resolved (Some [''0x01'']), [Count, At 0, At 1, At 2, At 3, At 4])
   \<and> distinct [''0x01'']
   \<and> BigNumber ''0x01'' = Some 1
   \<and> map id_a (builtinApps denv_ok) = [Some ''0x03'', Some ''0x02'']"
proof -
  have b: "builtinApps denv_ok =
    [blank_app\<lparr>id_a := Some ''0x03'', name_a := Some ''Status'', isView := True\<rparr>,
     blank_app\<lparr>id_a := Some ''0x02'', name_a := Some ''Wallet''\<rparr>]"
    by (simp add: builtinApps_def denv_ok_def truthy_def blank_app_def)
  have h: "bytesToHex [0x00] = ''0x00''" "bytesToHex [0x01] = ''0x01''" "bytesToHex [0x02] = ''0x02''"
    by (simp_all add: bytesToHex_def hex_digit_def)
  have n: "BigNumber ''0x00'' = Some 0" "BigNumber ''0x01'' = Some 1" "BigNumber ''0x02'' = Some 2"
    by (simp_all add: BigNumber_def hex_value_def)
  have cnt: "dcall Count (count_d denv_ok) [] = (Resolved 5, [Count])"
    by (simp add: dcall_def denv_ok_def)
  have s1: "then_p (dcall Count (count_d denv_ok))
       (\<lambda>count. all_p (map (\<lambda>index. dcall (At index) (\<lambda>h. at_d denv_ok h index)) [0..<count])) [] =
     (Resolved [([0x00], []), ([0x01], []), ([0x02], []), ([0x00], []), ([0x01], [])],
      [Count, At 0, At 1, At 2, At 3, At 4])"
    unfolding then_p_Resolved [where p = "dcall Count (count_d denv_ok)" and s = "[]", OF cnt]
      upt_5 all_p_at_5 by simp
  have c: "fetchRegistryAppIds_chain denv_ok [] =
    (Resolved (Some [''0x01'']), [Count, At 0, At 1, At 2, At 3, At 4])"
    unfolding fetchRegistryAppIds_chain_def
      then_p_Resolved [where s = "[]" and p = "then_p (dcall Count (count_d denv_ok))
       (\<lambda>count. all_p (map (\<lambda>index. dcall (At index) (\<lambda>h. at_d denv_ok h index)) [0..<count]))",
       OF s1]
    by (simp add: registryAppIds_def h n b gt0_def uniq_def resolve_def blank_app_def)
  have r: "fetchRegistryAppIds denv_ok [] =
    (Resolved (Some [''0x01'']), [Count, At 0, At 1, At 2, At 3, At 4])"
    unfolding fetchRegistryAppIds_def using c by (rule catch_warn_passes)
  from fetchRegistryAppIds_distinct_nonzero_not_builtin [OF r] r n b
  show ?thesis by simp
qed

section \<open>Rejections at the boundary of the public functions\<close>

lemma is_resolved_console_warn: "is_resolved (fst (console_warn tag p w))"
  by (simp add: console_warn_resolves)

lemma console_warn_settles: "\<exists>w'. console_warn tag p w = (Resolved (), w')"
  using console_warn_resolves [of tag p w] by (cases "console_warn tag p w") simp

lemma loadTokens_resolves: "\<exists>w'. loadTokens env (Some options) w = Inr (Resolved (), w')"
  using console_warn_settles [of "''tokens::loadTokens''" "loadTokens_chain env" w]
  by (simp add: loadTokens_def)

lemma loadTokensBasics_resolves:
  "\<exists>w'. loadTokensBasics env (Some tokenIndexes) w = Inr (Resolved (), w')"
  using console_warn_settles [of "''tokens::fetchTokens''"
      "loadTokensBasics_chain env (length (unknownIndexes (state_tokens w) tokenIndexes))" w]
  by (simp add: loadTokensBasics_def Let_def)

lemma fetchManifest_resolves: "is_resolved (fst (fetchManifest denv hash tr))"
  by (simp add: fetchManifest_def resolve_def catch_warn_resolves)

lemma subscribeToChanges_outcome:
  "subscribeToChanges denv tr =
     (case dapp_getContract denv tr of
        Inl e \<Rightarrow> (Rejected e, tr @ [DappGetContract])
      | Inr dappRegContract \<Rightarrow>
          (case newFilter denv (tr @ [DappGetContract]) of
             Inl e \<Rightarrow> (Rejected e, tr @ [DappGetContract, NewFilter])
           | Inr filterId \<Rightarrow>
               (case subscribe denv (tr @ [DappGetContract, NewFilter]) of
                  Inl e \<Rightarrow> (Rejected e, tr @ [DappGetContract, NewFilter, Subscribe])
                | Inr blockSubId \<Rightarrow>
                    (Resolved \<lparr>block = blockSubId, filter_s = filterId\<rparr>,
                     tr @ [DappGetContract, NewFilter, Subscribe]))))"
  by (simp add: subscribeToChanges_def then_p_def dcall_def resolve_def split: sum.splits)

text \<open>A rejected \<open>fetchTokensData\<close> has made its two fetch calls and nothing else: it has no
  handler of its own and logs nothing.\<close>

lemma fetchTokensData_rejected:
  assumes "fetchTokensData env c xs w = (Rejected e, w')"
  shows "trace w' = trace w @ [FetchTokensInfo (fullIndexes (state_tokens w) xs),
                               FetchTokensImages (partialIndexes (state_tokens w) xs)]"
proof -
  define fu where "fu = fullIndexes (state_tokens w) xs"
  define pa where "pa = partialIndexes (state_tokens w) xs"
  define P where "P = pair_p (call (FetchTokensInfo fu) (\<lambda>h. fetchTokensInfo env h fu))
     (then_p (call (FetchTokensImages pa) (\<lambda>h. fetchTokensImages env h pa))
        (\<lambda>imagesResult. resolve (partialResults (state_tokens w) pa imagesResult)))"
  define M where "M = (\<lambda>(fullResults, partialResults') w'.
                case foldl merge_step ([], w')
                       (fullResults @ List.map_filter (\<lambda>t. t) partialResults') of
                  (merged, w'') \<Rightarrow> (Resolved merged, w''))"
  define S where "S = (\<lambda>merged w'. (Resolved (), floating (setTokens env merged) w'))"
  have eq: "fetchTokensData env c xs w = then_p (then_p P M) S w"
    by (simp add: fetchTokensData_def Let_def P_def M_def S_def fu_def pa_def)
  have tP: "trace (snd (P w)) = trace w @ [FetchTokensInfo fu, FetchTokensImages pa]"
    by (simp add: P_def pair_p_def call_def then_p_def resolve_def split: sum.splits prod.splits)
  have rM: "\<And>v s. is_resolved (fst (M v s))"
    by (simp add: M_def split: prod.splits)
  have rS: "\<And>v s. is_resolved (fst (S v s))"
    by (simp add: S_def)
  obtain r w2 where Pw: "P w = (r, w2)" by (cases "P w")
  show ?thesis
  proof (cases r)
    case (Resolved v)
    obtain m s' where Mv: "M v w2 = (m, s')" by (cases "M v w2")
    with rM [of v w2] obtain m' where "m = Resolved m'" by (cases m) simp_all
    with Pw Resolved Mv have "then_p (then_p P M) S w = S m' s'"
      by (simp add: then_p_def)
    with rS [of m' s'] assms eq show ?thesis by simp
  next
    case (Rejected e')
    with Pw have "then_p (then_p P M) S w = (Rejected e', w2)"
      by (simp add: then_p_def)
    with assms eq have "w' = w2" by simp
    with tP Pw show ?thesis by (simp add: fu_def pa_def)
  qed
qed

lemma loadCachedTokens_unlogged_rejection:
  assumes "store w (TOKENS_CACHE_LS_KEY_PREFIX @ netChain w) = Some cd
          \<and> tokenreg cd = contract_address c \<and> cached_tokens cd = Some cts
          \<and> fetchTokensData env c (map index (filter fetched (Object_values cts)))
                (dispatch_setTokens env cts w) = (Rejected e, w')"
  shows "loadCachedTokens env c w = w'
          \<and> trace w' =
              trace w @ [Dispatch cts,
                FetchTokensInfo (fullIndexes (reducer env (state_tokens w) cts)
                                   (map index (filter fetched (Object_values cts)))),
                FetchTokensImages (partialIndexes (reducer env (state_tokens w) cts)
                                     (map index (filter fetched (Object_values cts))))]"
proof -
  from assms have s: "store w (TOKENS_CACHE_LS_KEY_PREFIX @ netChain w) = Some cd"
    and m: "tokenreg cd = contract_address c" "cached_tokens cd = Some cts"
    and r: "fetchTokensData env c (map index (filter fetched (Object_values cts)))
                (dispatch_setTokens env cts w) = (Rejected e, w')"
    by simp_all
  have "loadCachedTokens env c w = w'"
    by (simp add: loadCachedTokens_match [OF s m] floating_def r)
  moreover have "trace w' = trace w @ [Dispatch cts,
                FetchTokensInfo (fullIndexes (reducer env (state_tokens w) cts)
                                   (map index (filter fetched (Object_values cts)))),
                FetchTokensImages (partialIndexes (reducer env (state_tokens w) cts)
                                     (map index (filter fetched (Object_values cts))))]"
    using fetchTokensData_rejected [OF r]
    by (simp add: dispatch_setTokens_def emit_def)
  ultimately show ?thesis by simp
qed

text \<open>A response that is not ok is no rejection: \<open>fetchManifest\<close> returns \<open>null\<close> for it and
  logs nothing.\<close>

lemma fetchManifest_not_ok:
  "\<forall>response. \<not> manifest_regex hash
      \<and> http_fetch denv tr (''/api/content/'' @ hash @ ''/'') = Inr response
      \<and> \<not> ok response \<longrightarrow>
      fetchManifest denv hash tr
        = (Resolved None, tr @ [HttpFetch (''/api/content/'' @ hash @ ''/'')])"
  by (simp add: fetchManifest_def fetchManifest_chain_def catch_warn_def catch_p_def then_p_def
      dcall_def resolve_def Let_def)

text \<open>
  C4, as amended. Given an array of indexes and an options object, \<open>loadTokens\<close>,
  \<open>loadTokensBasics\<close>, \<open>fetchTokens\<close>, \<open>fetchBuiltinApps\<close>, \<open>fetchLocalApps\<close>,
  \<open>fetchRegistryAppIds\<close>, \<open>fetchRegistryApp\<close> and \<open>fetchManifest\<close> return a promise that
  resolves, whatever their collaborators answer; and whenever the promise chain in front
  of their handler rejects with an error, that one error is logged under the function's tag
  and the function resolves. Given \<open>null\<close> for the options, \<open>loadTokens\<close> throws before it
  has a promise, and so does \<open>loadTokensBasics\<close> given \<open>null\<close> for the indexes. The
  \<open>fetchTokensData\<close> that \<open>loadTokens\<close> starts from a matching cache entry is not part of the
  chain: when it rejects, \<open>loadCachedTokens\<close> returns with the two fetch calls made and
  nothing logged. A manifest response that is not ok is no rejection: \<open>fetchManifest\<close>
  resolves to \<open>null\<close> for it and logs nothing. \<open>subscribeToChanges\<close> has no handler: it
  resolves to the subscription when \<open>getContract\<close>, \<open>newFilter\<close> and \<open>subscribe\<close> all
  resolve, and rejects with the error of the first of them that rejects, logging nothing.
\<close>

theorem public_fetchers_catch_and_log:
  "(\<exists>w'. loadTokens env (Some options) w = Inr (Resolved (), w'))
   \<and> (\<exists>w'. loadTokensBasics env (Some tokenIndexes) w = Inr (Resolved (), w'))
   \<and> (is_resolved (fst (fetchTokens env requested w)))
   \<and> (is_resolved (fst (fetchBuiltinApps denv tr)))
   \<and> (is_resolved (fst (fetchLocalApps denv tr)))
   \<and> (is_resolved (fst (fetchRegistryAppIds denv tr)))
   \<and> (is_resolved (fst (fetchRegistryApp denv appId tr)))
   \<and> (is_resolved (fst (fetchManifest denv hash tr)))
   \<and> (loadTokens env None w = Inl TypeError)
   \<and> (loadTokensBasics env None w = Inl TypeError)
   \<and> (\<forall>e w'. loadTokens_chain env w = (Rejected e, w') \<longrightarrow>
          loadTokens env (Some options) w
            = Inr (Resolved (), emit (ConsoleWarn ''tokens::loadTokens'' e) w'))
   \<and> (\<forall>e w'. unknownIndexes (state_tokens w) tokenIndexes \<noteq> []
          \<and> loadTokensBasics_chain env (length (unknownIndexes (state_tokens w) tokenIndexes)) w
              = (Rejected e, w') \<longrightarrow>
          loadTokensBasics env (Some tokenIndexes) w
            = Inr (Resolved (), emit (ConsoleWarn ''tokens::fetchTokens'' e) w'))
   \<and> (\<forall>e w'. fetchTokens_chain env requested w = (Rejected e, w') \<longrightarrow>
          fetchTokens env requested w
            = (Resolved (), emit (ConsoleWarn ''tokens::fetchTokens'' e) w'))
   \<and> (\<forall>e tr'. fetchBuiltinApps_chain denv tr = (Rejected e, tr') \<longrightarrow>
          fetchBuiltinApps denv tr
            = (Resolved None, tr' @ [DappWarn ''DappsStore:fetchBuiltinApps'' e]))
   \<and> (\<forall>e tr'. fetchLocalApps_chain denv tr = (Rejected e, tr') \<longrightarrow>
          fetchLocalApps denv tr
            = (Resolved None, tr' @ [DappWarn ''DappsStore:fetchLocal'' e]))
   \<and> (\<forall>e tr'. fetchRegistryAppIds_chain denv tr = (Rejected e, tr') \<longrightarrow>
          fetchRegistryAppIds denv tr
            = (Resolved None, tr' @ [DappWarn ''DappsStore:fetchRegistryAppIds'' e]))
   \<and> (\<forall>e tr'. fetchRegistryApp_chain denv appId tr = (Rejected e, tr') \<longrightarrow>
          fetchRegistryApp denv appId tr
            = (Resolved None, tr' @ [DappWarn ''DappsStore:fetchRegistryApp'' e]))
   \<and> (\<forall>e tr'. \<not> manifest_regex hash \<and> fetchManifest_chain denv hash tr = (Rejected e, tr') \<longrightarrow>
          fetchManifest denv hash tr
            = (Resolved None, tr' @ [DappWarn ''DappsStore:fetchManifest'' e]))
   \<and> (\<forall>cd cts e w'. store w (TOKENS_CACHE_LS_KEY_PREFIX @ netChain w) = Some cd
          \<and> tokenreg cd = contract_address c \<and> cached_tokens cd = Some cts
          \<and> fetchTokensData env c (map index (filter fetched (Object_values cts)))
                (dispatch_setTokens env cts w) = (Rejected e, w') \<longrightarrow>
          loadCachedTokens env c w = w'
          \<and> trace w' =
              trace w @ [Dispatch cts,
                FetchTokensInfo (fullIndexes (reducer env (state_tokens w) cts)
                                   (map index (filter fetched (Object_values cts)))),
                FetchTokensImages (partialIndexes (reducer env (state_tokens w) cts)
                                     (map index (filter fetched (Object_values cts))))])
   \<and> (\<forall>response. \<not> manifest_regex hash
          \<and> http_fetch denv tr (''/api/content/'' @ hash @ ''/'') = Inr response
          \<and> \<not> ok response \<longrightarrow>
          fetchManifest denv hash tr
            = (Resolved None, tr @ [HttpFetch (''/api/content/'' @ hash @ ''/'')]))
   \<and> (subscribeToChanges denv tr =
        (case dapp_getContract denv tr of
           Inl e \<Rightarrow> (Rejected e, tr @ [DappGetContract])
         | Inr dappRegContract \<Rightarrow>
             (case newFilter denv (tr @ [DappGetContract]) of
                Inl e \<Rightarrow> (Rejected e, tr @ [DappGetContract, NewFilter])
              | Inr filterId \<Rightarrow>
                  (case subscribe denv (tr @ [DappGetContract, NewFilter]) of
                     Inl e \<Rightarrow> (Rejected e, tr @ [DappGetContract, NewFilter, Subscribe])
                   | Inr blockSubId \<Rightarrow>
                       (Resolved \<lparr>block = blockSubId, filter_s = filterId\<rparr>,
                        tr @ [DappGetContract, NewFilter, Subscribe])))))"
proof -
  have h1: "\<exists>w'. loadTokens env (Some options) w = Inr (Resolved (), w')"
    by (rule loadTokens_resolves)
  have h2: "\<exists>w'. loadTokensBasics env (Some tokenIndexes) w = Inr (Resolved (), w')"
    by (rule loadTokensBasics_resolves)
  have h3: "is_resolved (fst (fetchTokens env requested w))"
    by (simp add: fetchTokens_def is_resolved_console_warn)
  have h4: "is_resolved (fst (fetchBuiltinApps denv tr))"
    by (simp add: fetchBuiltinApps_def catch_warn_resolves)
  have h5: "is_resolved (fst (fetchLocalApps denv tr))"
    by (simp add: fetchLocalApps_def catch_warn_resolves)
  have h6: "is_resolved (fst (fetchRegistryAppIds denv tr))"
    by (simp add: fetchRegistryAppIds_def catch_warn_resolves)
  have h7: "is_resolved (fst (fetchRegistryApp denv appId tr))"
    by (simp add: fetchRegistryApp_def catch_warn_resolves)
  have h8: "is_resolved (fst (fetchManifest denv hash tr))"
    by (rule fetchManifest_resolves)
  have h9: "loadTokens env None w = Inl TypeError"
    by (simp add: loadTokens_def)
  have h10: "loadTokensBasics env None w = Inl TypeError"
    by (simp add: loadTokensBasics_def)
  have h11: "\<forall>e w'. loadTokens_chain env w = (Rejected e, w') \<longrightarrow>
          loadTokens env (Some options) w
            = Inr (Resolved (), emit (ConsoleWarn ''tokens::loadTokens'' e) w')"
    by (simp add: loadTokens_def console_warn_logs)
  have h12: "\<forall>e w'. unknownIndexes (state_tokens w) tokenIndexes \<noteq> []
          \<and> loadTokensBasics_chain env (length (unknownIndexes (state_tokens w) tokenIndexes)) w
              = (Rejected e, w') \<longrightarrow>
          loadTokensBasics env (Some tokenIndexes) w
            = Inr (Resolved (), emit (ConsoleWarn ''tokens::fetchTokens'' e) w')"
    by (simp add: loadTokensBasics_def Let_def console_warn_logs)
  have h13: "\<forall>e w'. fetchTokens_chain env requested w = (Rejected e, w') \<longrightarrow>
          fetchTokens env requested w
            = (Resolved (), emit (ConsoleWarn ''tokens::fetchTokens'' e) w')"
    by (simp add: fetchTokens_def console_warn_logs)
  have h14: "\<forall>e tr'. fetchBuiltinApps_chain denv tr = (Rejected e, tr') \<longrightarrow>
          fetchBuiltinApps denv tr
            = (Resolved None, tr' @ [DappWarn ''DappsStore:fetchBuiltinApps'' e])"
    by (simp add: fetchBuiltinApps_def catch_warn_logs)
  have h15: "\<forall>e tr'. fetchLocalApps_chain denv tr = (Rejected e, tr') \<longrightarrow>
          fetchLocalApps denv tr
            = (Resolved None, tr' @ [DappWarn ''DappsStore:fetchLocal'' e])"
    by (simp add: fetchLocalApps_def catch_warn_logs)
  have h16: "\<forall>e tr'. fetchRegistryAppIds_chain denv tr = (Rejected e, tr') \<longrightarrow>
          fetchRegistryAppIds denv tr
            = (Resolved None, tr' @ [DappWarn ''DappsStore:fetchRegistryAppIds'' e])"
    by (simp add: fetchRegistryAppIds_def catch_warn_logs)
  have h17: "\<forall>e tr'. fetchRegistryApp_chain denv appId tr = (Rejected e, tr') \<longrightarrow>
          fetchRegistryApp denv appId tr
            = (Resolved None, tr' @ [DappWarn ''DappsStore:fetchRegistryApp'' e])"
    by (simp add: fetchRegistryApp_def catch_warn_logs)
  have h18: "\<forall>e tr'. \<not> manifest_regex hash \<and> fetchManifest_chain denv hash tr = (Rejected e, tr') \<longrightarrow>
          fetchManifest denv hash tr
            = (Resolved None, tr' @ [DappWarn ''DappsStore:fetchManifest'' e])"
    by (simp add: fetchManifest_def catch_warn_logs)
  have h19: "\<forall>cd cts e w'. store w (TOKENS_CACHE_LS_KEY_PREFIX @ netChain w) = Some cd
          \<and> tokenreg cd = contract_address c \<and> cached_tokens cd = Some cts
          \<and> fetchTokensData env c (map index (filter fetched (Object_values cts)))
                (dispatch_setTokens env cts w) = (Rejected e, w') \<longrightarrow>
          loadCachedTokens env c w = w'
          \<and> trace w' =
              trace w @ [Dispatch cts,
                FetchTokensInfo (fullIndexes (reducer env (state_tokens w) cts)
                                   (map index (filter fetched (Object_values cts)))),
                FetchTokensImages (partialIndexes (reducer env (state_tokens w) cts)
                                     (map index (filter fetched (Object_values cts))))]"
    using loadCachedTokens_unlogged_rejection by blast
  have h19b: "\<forall>response. \<not> manifest_regex hash
          \<and> http_fetch denv tr (''/api/content/'' @ hash @ ''/'') = Inr response
          \<and> \<not> ok response \<longrightarrow>
          fetchManifest denv hash tr
            = (Resolved None, tr @ [HttpFetch (''/api/content/'' @ hash @ ''/'')])"
    by (rule fetchManifest_not_ok)
  have h20: "subscribeToChanges denv tr =
        (case dapp_getContract denv tr of
           Inl e \<Rightarrow> (Rejected e, tr @ [DappGetContract])
         | Inr dappRegContract \<Rightarrow>
             (case newFilter denv (tr @ [DappGetContract]) of
                Inl e \<Rightarrow> (Rejected e, tr @ [DappGetContract, NewFilter])
              | Inr filterId \<Rightarrow>
                  (case subscribe denv (tr @ [DappGetContract, NewFilter]) of
                     Inl e \<Rightarrow> (Rejected e, tr @ [DappGetContract, NewFilter, Subscribe])
                   | Inr blockSubId \<Rightarrow>
                       (Resolved \<lparr>block = blockSubId, filter_s = filterId\<rparr>,
                        tr @ [DappGetContract, NewFilter, Subscribe]))))"
    by (rule subscribeToChanges_outcome)
  show ?thesis
    by (intro conjI h1 h2 h3 h4 h5 h6 h7 h8 h9 h10 h11 h12 h13 h14 h15 h16 h17 h18 h19 h19b h20)
qed

text \<open>
  The claim as it stands fails in five ways. With a node that rejects \<open>getContract\<close>, the
  promise of \<open>subscribeToChanges\<close> rejects and nothing is logged. With a matching cache entry
  and an image fetcher that rejects, \<open>loadTokens\<close> resolves and its trace holds neither a
  warning nor an error: the failure inside the \<open>fetchTokensData\<close> it started is not caught.
  With \<open>null\<close> for their argument, \<open>loadTokens\<close> and \<open>loadTokensBasics\<close> throw. And when the
  image and the content lookup of \<open>fetchRegistryApp\<close> both reject, one warning is logged
  for the two failures. And when the server answers the manifest request with a status that
  is not ok, \<open>fetchManifest\<close> returns \<open>null\<close> and logs nothing.
\<close>

theorem uncaught_failures_counterexample:
  "subscribeToChanges denv_down [] = (Rejected (Error ''rpc down''), [DappGetContract])
   \<and> \<not> is_resolved (fst (subscribeToChanges denv_down []))
   \<and> fetchTokensImages env_images_fail
        [GetContract, Dispatch fetched_state, FetchTokensInfo []] [1]
        = Inl (Error ''images down'')
   \<and> map_sum id (map_prod id trace) (loadTokens env_images_fail (Some []) world_fresh) =
        Inr (Resolved (),
             [GetContract, Dispatch fetched_state, FetchTokensInfo [], FetchTokensImages [1],
              FetchTokenIds, GetContract, FetchTokensBasics 0 64, GetContract,
              StoreSet ''_parity::tokens::kovan''
                \<lparr>tokenreg = ''0xreg'', cached_tokens = Some fetched_state\<rparr>,
              Dispatch []])
   \<and> loadTokens env_ok None world_Z = Inl TypeError
   \<and> loadTokensBasics env_ok None world_Z = Inl TypeError
   \<and> getImage denv_two_errors [] (Some ''0x01'') = Inl (Error ''no image'')
   \<and> getContent denv_two_errors [GetImage (Some ''0x01'')] ''0x01'' = Inl (Error ''no content'')
   \<and> length (filter is_DappWarn (snd (fetchRegistryApp denv_two_errors ''0x01'' []))) = 1
   \<and> http_fetch denv_not_found [] ''/api/content/abc/''
        = Inr \<lparr>ok = False, json = Inl (Error ''no body'')\<rparr>
   \<and> fetchManifest denv_not_found ''abc'' [] = (Resolved None, [HttpFetch ''/api/content/abc/''])"
proof -
  have f: "getContract env_images_fail = (\<lambda>h. Inr (Contract ''0xreg''))"
    "store_set env_images_fail = (\<lambda>h k v. None)"
    "fetchTokensBasics env_images_fail = (\<lambda>h start lim. Inr [])"
    by (simp_all add: env_images_fail_def env_ok_def)
  have ids: "fetchTokenIds env_images_fail = (\<lambda>h. Inr [0, 1])"
    by (simp add: env_images_fail_def env_ok_def)
  have im: "fetchTokensImages env_images_fail
        [GetContract, Dispatch fetched_state, FetchTokensInfo []] [1]
        = Inl (Error ''images down'')"
    by (simp add: fetchTokensImages_def env_images_fail_def)
  define W1 where "W1 = world_fresh\<lparr>state_tokens := fetched_state,
      trace := [GetContract, Dispatch fetched_state, FetchTokensInfo [],
                FetchTokensImages [Suc 0]]\<rparr>"
  have p: "partialIndexes fetched_state [Suc 0] = [Suc 0]" "fullIndexes fetched_state [Suc 0] = []"
    by (simp_all add: partialIndexes_filter fullIndexes_filter fetchedTokenIndexes_def
        fetched_state_def Object_values_def token_A_def)
  have st: "state_tokens (dispatch_setTokens env_images_fail fetched_state
              (emit GetContract world_fresh)) = fetched_state"
    by (simp add: dispatch_setTokens_def emit_def env_images_fail_def env_ok_def world_fresh_def
        spread_def fetched_state_def)
  have ftd: "fetchTokensData env_images_fail (Contract ''0xreg'') [Suc 0]
        (dispatch_setTokens env_images_fail fetched_state (emit GetContract world_fresh))
      = (Rejected (Error ''images down''), W1)"
    unfolding fetchTokensData_def Let_def st p
    by (simp add: then_p_def pair_p_def call_def resolve_def fetchTokensImages_def W1_def
        dispatch_setTokens_def emit_def env_images_fail_def env_ok_def world_fresh_def
        spread_def fetched_state_def)
  have B: "loadCachedTokens env_images_fail (Contract ''0xreg'') (emit GetContract world_fresh) = W1"
  proof -
    have s: "store (emit GetContract world_fresh)
        (TOKENS_CACHE_LS_KEY_PREFIX @ netChain (emit GetContract world_fresh)) =
        Some \<lparr>tokenreg = ''0xreg'', cached_tokens = Some fetched_state\<rparr>"
      by (simp add: emit_def world_fresh_def TOKENS_CACHE_LS_KEY_PREFIX_def)
    have i: "map index (filter fetched (Object_values fetched_state)) = [Suc 0]"
      by (simp add: fetched_state_def Object_values_def token_A_def)
    show ?thesis
      using loadCachedTokens_match [OF s, of "Contract ''0xreg''" fetched_state env_images_fail]
      by (simp add: i ftd floating_def)
  qed
  have u: "length (unknownIndexes (state_tokens (emit FetchTokenIds W1)) [0, 1]) = Suc 0"
    by (simp add: unknownIndexes_def W1_def emit_def fetched_state_def Object_values_def
        token_A_def)
  from loadTokensBasics_one_unknown [OF u f]
  obtain w' where b: "loadTokensBasics env_images_fail (Some [0, 1]) (emit FetchTokenIds W1)
      = Inr (Resolved (), w')"
    and t: "trace w' = trace (emit FetchTokenIds W1) @
        [GetContract, FetchTokensBasics 0 64, GetContract,
          StoreSet (TOKENS_CACHE_LS_KEY_PREFIX @ netChain (emit FetchTokenIds W1))
            \<lparr>tokenreg = ''0xreg'', cached_tokens = Some (state_tokens (emit FetchTokenIds W1))\<rparr>,
          Dispatch []]"
    by blast
  have b': "loadTokensBasics env_images_fail (Some [0, Suc 0]) (emit FetchTokenIds W1)
      = Inr (Resolved (), w')"
    using b by simp
  have c: "loadTokens_chain env_images_fail world_fresh = (Resolved (), w')"
    by (simp add: loadTokens_chain_def then_p_def call_def f ids B b' in_callback_def)
  have l: "loadTokens env_images_fail (Some []) world_fresh = Inr (Resolved (), w')"
    by (simp add: loadTokens_def
        console_warn_passes [where p = "loadTokens_chain env_images_fail", OF c])
  have lt: "map_sum id (map_prod id trace) (loadTokens env_images_fail (Some []) world_fresh) =
        Inr (Resolved (),
             [GetContract, Dispatch fetched_state, FetchTokensInfo [], FetchTokensImages [1],
              FetchTokenIds, GetContract, FetchTokensBasics 0 64, GetContract,
              StoreSet ''_parity::tokens::kovan''
                \<lparr>tokenreg = ''0xreg'', cached_tokens = Some fetched_state\<rparr>,
              Dispatch []])"
    unfolding l
    by (simp add: t W1_def emit_def world_fresh_def TOKENS_CACHE_LS_KEY_PREFIX_def)
  have gi: "getImage denv_two_errors = (\<lambda>h appId. Inl (Error ''no image''))"
    and gc: "getContent denv_two_errors = (\<lambda>h appId. Inl (Error ''no content''))"
    and gm: "getManifest denv_two_errors = (\<lambda>h appId. Inr manifest_id_0a)"
    by (simp_all add: denv_two_errors_def denv_ok_def)
  have "fetchRegistryApp_chain denv_two_errors ''0x01'' [] =
      (Rejected (Error ''no image''),
       [GetImage (Some ''0x01''), GetContent ''0x01'', GetManifest ''0x01''])"
    by (simp add: fetchRegistryApp_chain_def then_p_def pair_p_def dcall_def gi gc gm)
  then have two: "fetchRegistryApp denv_two_errors ''0x01'' [] =
      (Resolved None,
       [GetImage (Some ''0x01''), GetContent ''0x01'', GetManifest ''0x01'',
        DappWarn ''DappsStore:fetchRegistryApp'' (Error ''no image'')])"
    by (simp add: fetchRegistryApp_def catch_warn_logs)
  have sub: "subscribeToChanges denv_down [] = (Rejected (Error ''rpc down''), [DappGetContract])"
    by (simp add: subscribeToChanges_outcome denv_down_def)
  have hf: "http_fetch denv_not_found [] ''/api/content/abc/''
        = Inr \<lparr>ok = False, json = Inl (Error ''no body'')\<rparr>"
    by (simp add: denv_not_found_def)
  have nf: "fetchManifest denv_not_found ''abc'' [] =
      (Resolved None, [HttpFetch ''/api/content/abc/''])"
    using fetchManifest_not_ok [of "''abc''" denv_not_found "[]"] hf
    by (simp add: manifest_regex_def zeros_here_def)
  show ?thesis
    unfolding lt two sub im nf hf
    by (simp add: loadTokens_def loadTokensBasics_def gi gc)
qed

theorem public_fetchers_catch_and_log_witness:
  "loadTokens env_no_contract (Some []) world_Z =
     Inr (Resolved (),
      world_Z\<lparr>trace := [GetContract, ConsoleWarn ''tokens::loadTokens'' (Error ''no registry'')]\<rparr>)
   \<and> loadTokensBasics env_no_contract (Some [1]) world_Z =
     Inr (Resolved (),
      world_Z\<lparr>trace := [GetContract, ConsoleWarn ''tokens::fetchTokens'' (Error ''no registry'')]\<rparr>)
   \<and> trace (loadCachedTokens env_images_fail (Contract ''0xreg'') world_fresh) =
     [Dispatch fetched_state, FetchTokensInfo [], FetchTokensImages [1]]
   \<and> fetchTokens env_no_contract (Some [1]) world_Z =
     (Resolved (),
      world_Z\<lparr>trace := [GetContract, ConsoleWarn ''tokens::fetchTokens'' (Error ''no registry'')]\<rparr>)
   \<and> fetchBuiltinApps denv_down [] =
     (Resolved None,
      [GetImage (Some ''0x03''), GetImage (Some ''0x02''),
       DappWarn ''DappsStore:fetchBuiltinApps'' (Error ''rpc down'')])
   \<and> fetchLocalApps denv_down [] =
     (Resolved None, [DappsList, DappWarn ''DappsStore:fetchLocal'' (Error ''rpc down'')])
   \<and> fetchRegistryAppIds denv_down [] =
     (Resolved None, [Count, DappWarn ''DappsStore:fetchRegistryAppIds'' (Error ''rpc down'')])
   \<and> fetchRegistryApp denv_down ''0x01'' [] =
     (Resolved None,
      [GetImage (Some ''0x01''), GetContent ''0x01'', GetManifest ''0x01'',
       DappWarn ''DappsStore:fetchRegistryApp'' (Error ''rpc down'')])
   \<and> fetchManifest denv_down ''abc'' [] =
     (Resolved None,
      [HttpFetch ''/api/content/abc/'', DappWarn ''DappsStore:fetchManifest'' (Error ''rpc down'')])
   \<and> fetchManifest denv_not_found ''abc'' [] =
     (Resolved None, [HttpFetch ''/api/content/abc/''])
   \<and> subscribeToChanges denv_ok [] =
     (Resolved \<lparr>block = 3, filter_s = 7\<rparr>, [DappGetContract, NewFilter, Subscribe])"
proof -
  have g: "getContract env_no_contract = (\<lambda>h. Inl (Error ''no registry''))"
    by (simp add: env_no_contract_def)
  have c1: "loadTokens_chain env_no_contract world_Z =
      (Rejected (Error ''no registry''), emit GetContract world_Z)"
    by (simp add: loadTokens_chain_def then_p_def call_def g)
  have u: "unknownIndexes (state_tokens world_Z) [1] = [1]"
    by (simp add: unknownIndexes_def world_Z_def Object_values_def token_Z_def)
  have c2: "loadTokensBasics_chain env_no_contract (length (unknownIndexes (state_tokens world_Z) [1]))
      world_Z = (Rejected (Error ''no registry''), emit GetContract world_Z)"
    by (simp add: loadTokensBasics_chain_def then_p_def call_def g)
  have c3: "fetchTokens_chain env_no_contract (Some [1]) world_Z =
      (Rejected (Error ''no registry''), emit GetContract world_Z)"
    by (simp add: fetchTokens_chain_def then_p_def call_def g)
  have b: "builtinApps denv_down =
    [blank_app\<lparr>id_a := Some ''0x03'', name_a := Some ''Status'', isView := True\<rparr>,
     blank_app\<lparr>id_a := Some ''0x02'', name_a := Some ''Wallet''\<rparr>]"
    by (simp add: builtinApps_def denv_down_def denv_ok_def truthy_def blank_app_def)
  have gi: "getImage denv_down = (\<lambda>h appId. Inl (Error ''rpc down''))"
    by (simp add: denv_down_def)
  have c4: "fetchBuiltinApps_chain denv_down [] =
      (Rejected (Error ''rpc down''), [GetImage (Some ''0x03''), GetImage (Some ''0x02'')])"
    by (simp add: fetchBuiltinApps_chain_def b then_p_def pair_p_def dcall_def resolve_def
        gi blank_app_def)
  have c5: "fetchLocalApps_chain denv_down [] = (Rejected (Error ''rpc down''), [DappsList])"
    by (simp add: fetchLocalApps_chain_def then_p_def dcall_def denv_down_def)
  have c6: "fetchRegistryAppIds_chain denv_down [] = (Rejected (Error ''rpc down''), [Count])"
    by (simp add: fetchRegistryAppIds_chain_def then_p_def dcall_def denv_down_def)
  have c7: "fetchRegistryApp_chain denv_down ''0x01'' [] =
      (Rejected (Error ''rpc down''),
       [GetImage (Some ''0x01''), GetContent ''0x01'', GetManifest ''0x01''])"
    by (simp add: fetchRegistryApp_chain_def then_p_def pair_p_def dcall_def denv_down_def)
  have r: "\<not> manifest_regex ''abc''"
    by (simp add: manifest_regex_def zeros_here_def)
  have c8: "fetchManifest_chain denv_down ''abc'' [] =
      (Rejected (Error ''rpc down''), [HttpFetch ''/api/content/abc/''])"
    by (simp add: fetchManifest_chain_def Let_def then_p_def dcall_def denv_down_def)
  have s: "subscribeToChanges denv_ok [] =
     (Resolved \<lparr>block = 3, filter_s = 7\<rparr>, [DappGetContract, NewFilter, Subscribe])"
    using public_fetchers_catch_and_log [where denv = denv_ok and tr = "[]"]
    by (simp add: denv_ok_def)
  note T = public_fetchers_catch_and_log
    [where env = env_no_contract and w = world_Z and tokenIndexes = "[1]" and options = "[]"
       and requested = "Some [1]" and denv = denv_down and tr = "[]"
       and appId = "''0x01''" and hash = "''abc''"]
  have ne: "unknownIndexes (state_tokens world_Z) [1] \<noteq> []"
    unfolding u by simp
  note l1 = T [THEN conjunct2, THEN conjunct2, THEN conjunct2, THEN conjunct2, THEN conjunct2, THEN conjunct2, THEN conjunct2, THEN conjunct2, THEN conjunct2, THEN conjunct2, THEN conjunct1, rule_format, OF c1]
  note l2 = T [THEN conjunct2, THEN conjunct2, THEN conjunct2, THEN conjunct2, THEN conjunct2, THEN conjunct2, THEN conjunct2, THEN conjunct2, THEN conjunct2, THEN conjunct2, THEN conjunct2, THEN conjunct1, rule_format, OF conjI [OF ne c2]]
  note l3 = T [THEN conjunct2, THEN conjunct2, THEN conjunct2, THEN conjunct2, THEN conjunct2, THEN conjunct2, THEN conjunct2, THEN conjunct2, THEN conjunct2, THEN conjunct2, THEN conjunct2, THEN conjunct2, THEN conjunct1, rule_format, OF c3]
  note l4 = T [THEN conjunct2, THEN conjunct2, THEN conjunct2, THEN conjunct2, THEN conjunct2, THEN conjunct2, THEN conjunct2, THEN conjunct2, THEN conjunct2, THEN conjunct2, THEN conjunct2, THEN conjunct2, THEN conjunct2, THEN conjunct1, rule_format, OF c4]
  note l5 = T [THEN conjunct2, THEN conjunct2, THEN conjunct2, THEN conjunct2, THEN conjunct2, THEN conjunct2, THEN conjunct2, THEN conjunct2, THEN conjunct2, THEN conjunct2, THEN conjunct2, THEN conjunct2, THEN conjunct2, THEN conjunct2, THEN conjunct1, rule_format, OF c5]
  note l6 = T [THEN conjunct2, THEN conjunct2, THEN conjunct2, THEN conjunct2, THEN conjunct2, THEN conjunct2, THEN conjunct2, THEN conjunct2, THEN conjunct2, THEN conjunct2, THEN conjunct2, THEN conjunct2, THEN conjunct2, THEN conjunct2, THEN conjunct2, THEN conjunct1, rule_format, OF c6]
  note l7 = T [THEN conjunct2, THEN conjunct2, THEN conjunct2, THEN conjunct2, THEN conjunct2, THEN conjunct2, THEN conjunct2, THEN conjunct2, THEN conjunct2, THEN conjunct2, THEN conjunct2, THEN conjunct2, THEN conjunct2, THEN conjunct2, THEN conjunct2, THEN conjunct2, THEN conjunct1, rule_format, OF c7]
  note l8 = T [THEN conjunct2, THEN conjunct2, THEN conjunct2, THEN conjunct2, THEN conjunct2, THEN conjunct2, THEN conjunct2, THEN conjunct2, THEN conjunct2, THEN conjunct2, THEN conjunct2, THEN conjunct2, THEN conjunct2, THEN conjunct2, THEN conjunct2, THEN conjunct2, THEN conjunct2, THEN conjunct1, rule_format, OF conjI [OF r c8]]
  have st: "store world_fresh (TOKENS_CACHE_LS_KEY_PREFIX @ netChain world_fresh) =
      Some \<lparr>tokenreg = ''0xreg'', cached_tokens = Some fetched_state\<rparr>"
    by (simp add: world_fresh_def TOKENS_CACHE_LS_KEY_PREFIX_def)
  have sp: "reducer env_images_fail (state_tokens world_fresh) fetched_state = fetched_state"
    by (simp add: env_images_fail_def env_ok_def world_fresh_def spread_def fetched_state_def)
  have i: "map index (filter fetched (Object_values fetched_state)) = [Suc 0]"
    by (simp add: fetched_state_def Object_values_def token_A_def)
  have p: "partialIndexes fetched_state [Suc 0] = [Suc 0]" "fullIndexes fetched_state [Suc 0] = []"
    by (simp_all add: partialIndexes_filter fullIndexes_filter fetchedTokenIndexes_def
        fetched_state_def Object_values_def token_A_def)
  have "fst (fetchTokensData env_images_fail (Contract ''0xreg'') [Suc 0]
          (dispatch_setTokens env_images_fail fetched_state world_fresh))
      = Rejected (Error ''images down'')"
    unfolding fetchTokensData_def Let_def
    by (simp add: then_p_def pair_p_def call_def resolve_def fetchTokensImages_def
        env_images_fail_def env_ok_def split: sum.splits prod.splits)
  then have rj: "fetchTokensData env_images_fail (Contract ''0xreg'')
          (map index (filter fetched (Object_values fetched_state)))
          (dispatch_setTokens env_images_fail fetched_state world_fresh)
      = (Rejected (Error ''images down''),
         snd (fetchTokensData env_images_fail (Contract ''0xreg'') [Suc 0]
          (dispatch_setTokens env_images_fail fetched_state world_fresh)))"
    unfolding i by (metis prod.collapse)
  have tw: "trace world_fresh = []"
    by (simp add: world_fresh_def)
  have m: "tokenreg \<lparr>tokenreg = ''0xreg'', cached_tokens = Some fetched_state\<rparr>
      = contract_address (Contract ''0xreg'')"
    "cached_tokens \<lparr>tokenreg = ''0xreg'', cached_tokens = Some fetched_state\<rparr>
      = Some fetched_state"
    by simp_all
  note l9 = public_fetchers_catch_and_log
    [where env = env_images_fail and w = world_fresh and c = "Contract ''0xreg''",
      THEN conjunct2, THEN conjunct2, THEN conjunct2, THEN conjunct2, THEN conjunct2, THEN conjunct2, THEN conjunct2, THEN conjunct2, THEN conjunct2, THEN conjunct2, THEN conjunct2, THEN conjunct2, THEN conjunct2, THEN conjunct2, THEN conjunct2, THEN conjunct2, THEN conjunct2, THEN conjunct2, THEN conjunct1, rule_format, OF conjI [OF st conjI [OF m(1) conjI [OF m(2) rj]]]]
  have l9': "trace (loadCachedTokens env_images_fail (Contract ''0xreg'') world_fresh) =
     [Dispatch fetched_state, FetchTokensInfo [], FetchTokensImages [1]]"
    using l9 unfolding sp i p by (simp add: tw)
  have hf: "http_fetch denv_not_found [] (''/api/content/'' @ ''abc'' @ ''/'')
        = Inr \<lparr>ok = False, json = Inl (Error ''no body'')\<rparr>"
    by (simp add: denv_not_found_def)
  have nok: "\<not> ok \<lparr>ok = False, json = Inl (Error ''no body'')\<rparr>"
    by simp
  note l10 = public_fetchers_catch_and_log
    [where denv = denv_not_found and tr = "[]" and hash = "''abc''",
      THEN conjunct2, THEN conjunct2, THEN conjunct2, THEN conjunct2, THEN conjunct2, THEN conjunct2, THEN conjunct2, THEN conjunct2, THEN conjunct2, THEN conjunct2, THEN conjunct2, THEN conjunct2, THEN conjunct2, THEN conjunct2, THEN conjunct2, THEN conjunct2, THEN conjunct2, THEN conjunct2, THEN conjunct2, THEN conjunct1, rule_format, OF conjI [OF r conjI [OF hf nok]]]
  have l10': "fetchManifest denv_not_found ''abc'' [] =
     (Resolved None, [HttpFetch ''/api/content/abc/''])"
    using l10 by simp
  show ?thesis
    unfolding l1 l2 l3 l4 l5 l6 l7 l8 l9' l10' s
    by (simp add: emit_def world_Z_def)
qed

section \<open>Images for every partial index\<close>

lemma fetchTokensImages_length:
  "fetchTokensImages env h indexes = Inr imagesResult \<Longrightarrow> length imagesResult = length indexes"
  by (auto simp: fetchTokensImages_def split: option.splits)

lemma tokensIndexesMap_defined:
  assumes "i \<in> set (fetchedTokenIndexes ts)"
  shows "tokensIndexesMap ts i \<noteq> None"
proof -
  from assms obtain t where "t \<in> set (Object_values ts)" "index t = i"
    by (auto simp: fetchedTokenIndexes_iff)
  then show ?thesis
    by (auto simp: tokensIndexesMap_find find_None_iff)
qed

lemma partialResults_Some:
  assumes "length imagesResult = length (partialIndexes ts tokenIndexes)"
  shows "None \<notin> set (partialResults ts (partialIndexes ts tokenIndexes) imagesResult)"
proof
  assume "None \<in> set (partialResults ts (partialIndexes ts tokenIndexes) imagesResult)"
  then obtain k where k: "k < length imagesResult"
    and n: "partialResults ts (partialIndexes ts tokenIndexes) imagesResult ! k = None"
    by (auto simp: in_set_conv_nth partialResults_def)
  from k assms have kp: "k < length (partialIndexes ts tokenIndexes)" by simp
  then have "partialIndexes ts tokenIndexes ! k \<in> set (partialIndexes ts tokenIndexes)"
    by (rule nth_mem)
  then have "partialIndexes ts tokenIndexes ! k \<in> set (fetchedTokenIndexes ts)"
    by (simp add: partialIndexes_filter)
  then have "tokensIndexesMap ts (partialIndexes ts tokenIndexes ! k) \<noteq> None"
    by (rule tokensIndexesMap_defined)
  with n k kp show False
    by (auto simp: partialResults_nth)
qed

section \<open>When the manifest is requested\<close>

lemma fetchRegistryApp_requests_manifest:
  assumes "getImage env tr (Some appId) = Inr imageId"
    and "getContent env (tr @ [GetImage (Some appId)]) appId = Inr contentId"
    and "getManifest env (tr @ [GetImage (Some appId), GetContent appId]) appId = Inr manifestId"
    and "\<not> manifest_regex (drop 2 (bytesToHex manifestId))"
  shows "\<exists>rest. snd (fetchRegistryApp env appId tr) =
      tr @ [GetImage (Some appId), GetContent appId, GetManifest appId,
            HttpFetch (''/api/content/'' @ drop 2 (bytesToHex manifestId) @ ''/'')] @ rest"
proof -
  let ?url = "''/api/content/'' @ drop 2 (bytesToHex manifestId) @ ''/''"
  let ?tr3 = "tr @ [GetImage (Some appId), GetContent appId, GetManifest appId]"
  have "\<exists>r rest. fetchManifest env (drop 2 (bytesToHex manifestId)) ?tr3 =
           (Resolved r, ?tr3 @ HttpFetch ?url # rest)"
    using assms(4)
    by (auto simp: fetchManifest_def fetchManifest_chain_def catch_warn_def catch_p_def then_p_def
        dcall_def resolve_def Let_def split: sum.splits)
  then obtain r rest where m: "fetchManifest env (drop 2 (bytesToHex manifestId)) ?tr3 =
           (Resolved r, ?tr3 @ HttpFetch ?url # rest)"
    by blast
  have "\<exists>v. fetchRegistryApp_chain env appId tr = (Resolved v, ?tr3 @ HttpFetch ?url # rest)"
    using assms(1-3) m
    by (simp add: fetchRegistryApp_chain_def then_p_def pair_p_def dcall_def resolve_def Let_def)
  then show ?thesis
    by (auto simp: fetchRegistryApp_def catch_warn_def catch_p_def)
qed

end
